theory Spec2Isabelle
  imports Complex_Main "HOL-Library.AList"
begin

section \<open>JavaScript values shared by the modules\<close>

text \<open>
  Reading a property of \<open>undefined\<close> (for instance \<open>xs[0].value\<close> on an empty array, or a
  method call on a \<open>null\<close> map) throws a \<open>TypeError\<close>; every such place of the source is a
  branch of the model.
\<close>

datatype js_error = TypeError

text \<open>The browser console: the modules log through \<open>console.warn\<close> and \<open>console.error\<close>.\<close>

datatype log_entry = Warn string | Error string

section \<open>rivers.js: USGS gage data\<close>

text \<open>\<open>PARAMETER_CODES.discharge\<close> and \<open>PARAMETER_CODES.gageHeight\<close>.\<close>

definition PARAMETER_CODES_discharge :: string where
  "PARAMETER_CODES_discharge = ''00060''"

definition PARAMETER_CODES_gageHeight :: string where
  "PARAMETER_CODES_gageHeight = ''00065''"

text \<open>
  One entry of \<open>series.values[0].value\<close>: the reading (a string that \<open>parseFloat\<close> turns
  into a number) and its time stamp.
\<close>

record reading =
  rd_value :: string
  rd_dateTime :: "string option"

text \<open>
  One element of \<open>data.value.timeSeries\<close>. The arrays the source indexes with \<open>[0]\<close> are
  lists, so that an empty one is an input of the model: \<open>ts_siteCode\<close> holds
  \<open>sourceInfo.siteCode[i].value\<close>, \<open>ts_variableCode\<close> holds
  \<open>variable.variableCode[i].value\<close> and \<open>ts_values\<close> holds \<open>values[i].value\<close>.
  Numbers are of an arbitrary type \<open>'n\<close>: the code only copies them.
\<close>

record 'n series =
  ts_siteCode :: "string list"
  ts_siteName :: string
  ts_latitude :: 'n
  ts_longitude :: 'n
  ts_variableCode :: "string list"
  ts_values :: "reading list list"

text \<open>The response: \<open>data.value\<close> and \<open>data.value.timeSeries\<close> may both be absent.\<close>

record 'n usgs_value =
  timeSeries :: "'n series list option"

record 'n usgs_data =
  usgs_value :: "'n usgs_value option"

text \<open>The GeoJSON point feature built for one site.\<close>

record 'n gage_properties =
  siteCode :: string
  siteName :: string
  dateTime :: "string option"
  streamflow :: "'n option"
  gageHeight :: "'n option"

record 'n gage_feature =
  coordinates :: "'n \<times> 'n"
  properties :: "'n gage_properties"

record 'n gage_collection =
  features :: "'n gage_feature list"

text \<open>
  \<open>siteMap\<close> is a JavaScript \<open>Map\<close>: keys in insertion order, \<open>has\<close>, \<open>set\<close> and \<open>get\<close>.
  It is an association list; \<open>AList.update\<close> keeps the position of a key that is present
  and appends a new one, as \<open>Map.prototype.set\<close> does.
\<close>

type_synonym 'n siteMap = "(string \<times> 'n gage_feature) list"

definition siteMap_has :: "'n siteMap \<Rightarrow> string \<Rightarrow> bool" where
  "siteMap_has m k = (map_of m k \<noteq> None)"

text \<open>
  The two assignments \<open>feature.properties.streamflow = ...\<close> and
  \<open>feature.properties.gageHeight = ...\<close> of the loop body, on the feature object that
  \<open>siteMap.get(siteCode)\<close> returned.
\<close>

definition add_parameter ::
  "(string \<Rightarrow> 'n) \<Rightarrow> string \<Rightarrow> reading option \<Rightarrow> 'n gage_feature \<Rightarrow> 'n gage_feature" where
  "add_parameter parseFloat paramCode latestValue feature =
     (case latestValue of
        None \<Rightarrow> feature
      | Some lv \<Rightarrow>
          if paramCode = PARAMETER_CODES_discharge
          then feature\<lparr>properties := (properties feature)\<lparr>streamflow := Some (parseFloat (rd_value lv))\<rparr>\<rparr>
          else if paramCode = PARAMETER_CODES_gageHeight
          then feature\<lparr>properties := (properties feature)\<lparr>gageHeight := Some (parseFloat (rd_value lv))\<rparr>\<rparr>
          else feature)"

text \<open>The body of \<open>data.value.timeSeries.forEach(series => ...)\<close>.\<close>

definition series_step ::
  "(string \<Rightarrow> 'n) \<Rightarrow> 'n siteMap \<Rightarrow> 'n series \<Rightarrow> js_error + 'n siteMap" where
  "series_step parseFloat siteMap s =
     (case ts_siteCode s of
        [] \<Rightarrow> Inl TypeError
      | sc # _ \<Rightarrow>
     (case ts_variableCode s of
        [] \<Rightarrow> Inl TypeError
      | paramCode # _ \<Rightarrow>
     (case ts_values s of
        [] \<Rightarrow> Inl TypeError
      | vals # _ \<Rightarrow>
          let latestValue = (if length vals > 0 then Some (last vals) else None);
              siteMap1 =
                (if \<not> siteMap_has siteMap sc
                 then AList.update sc
                        \<lparr>coordinates = (ts_longitude s, ts_latitude s),
                         properties = \<lparr>siteCode = sc, siteName = ts_siteName s,
                                       dateTime = (case latestValue of None \<Rightarrow> None
                                                   | Some lv \<Rightarrow> rd_dateTime lv),
                                       streamflow = None, gageHeight = None\<rparr>\<rparr>
                        siteMap
                 else siteMap)
          in Inr (AList.map_entry sc (add_parameter parseFloat paramCode latestValue) siteMap1))))"

fun forEach_series ::
  "(string \<Rightarrow> 'n) \<Rightarrow> 'n series list \<Rightarrow> 'n siteMap \<Rightarrow> js_error + 'n siteMap" where
  "forEach_series parseFloat [] siteMap = Inr siteMap"
| "forEach_series parseFloat (s # ss) siteMap =
     (case series_step parseFloat siteMap s of
        Inl e \<Rightarrow> Inl e
      | Inr siteMap' \<Rightarrow> forEach_series parseFloat ss siteMap')"

definition convertToGeoJSON ::
  "(string \<Rightarrow> 'n) \<Rightarrow> 'n usgs_data \<Rightarrow> js_error + 'n gage_collection" where
  "convertToGeoJSON parseFloat data =
     (case usgs_value data of
        None \<Rightarrow> Inr \<lparr>features = []\<rparr>
      | Some v \<Rightarrow>
     (case timeSeries v of
        None \<Rightarrow> Inr \<lparr>features = []\<rparr>
      | Some tss \<Rightarrow>
     (case forEach_series parseFloat tss [] of
        Inl e \<Rightarrow> Inl e
      | Inr siteMap \<Rightarrow> Inr \<lparr>features = map snd siteMap\<rparr>)))"


text \<open>
  What the claims say about a response, in the words of the specification: the site a
  series belongs to, the parameter it reports, its latest reading, and the reading of a
  parameter that a response makes available for a site (the one of the last series that
  reports it).
\<close>

definition series_site :: "'n series \<Rightarrow> string option" where
  "series_site s = (case ts_siteCode s of [] \<Rightarrow> None | c # _ \<Rightarrow> Some c)"

definition series_param :: "'n series \<Rightarrow> string option" where
  "series_param s = (case ts_variableCode s of [] \<Rightarrow> None | c # _ \<Rightarrow> Some c)"

definition series_latest :: "'n series \<Rightarrow> reading option" where
  "series_latest s =
     (case ts_values s of [] \<Rightarrow> None
      | vals # _ \<Rightarrow> if vals = [] then None else Some (last vals))"

definition wf_series :: "'n series \<Rightarrow> bool" where
  "wf_series s = (ts_siteCode s \<noteq> [] \<and> ts_variableCode s \<noteq> [] \<and> ts_values s \<noteq> [])"

definition reports :: "string \<Rightarrow> string \<Rightarrow> 'n series \<Rightarrow> bool" where
  "reports c code s =
     (series_site s = Some c \<and> series_param s = Some code \<and> series_latest s \<noteq> None)"

definition available :: "(string \<Rightarrow> 'n) \<Rightarrow> string \<Rightarrow> string \<Rightarrow> 'n series list \<Rightarrow> 'n option" where
  "available parseFloat c code tss =
     (case rev (filter (reports c code) tss) of
        [] \<Rightarrow> None
      | s # _ \<Rightarrow> map_option (\<lambda>lv. parseFloat (rd_value lv)) (series_latest s))"

text \<open>
  Notions used to reason about the loop of \<open>convertToGeoJSON\<close>: the feature a series
  creates for a new site, the invariant of \<open>siteMap\<close>, and a field of the feature
  stored for a site.
\<close>

definition new_feature :: "'n series \<Rightarrow> string \<Rightarrow> 'n gage_feature" where
  "new_feature s sc =
     \<lparr>coordinates = (ts_longitude s, ts_latitude s),
      properties = \<lparr>siteCode = sc, siteName = ts_siteName s,
                    dateTime = (case series_latest s of None \<Rightarrow> None | Some lv \<Rightarrow> rd_dateTime lv),
                    streamflow = None, gageHeight = None\<rparr>\<rparr>"

definition siteMap_ok :: "'n siteMap \<Rightarrow> bool" where
  "siteMap_ok m = (distinct (map fst m) \<and> (\<forall>(k, f) \<in> set m. siteCode (properties f) = k))"

definition field_of :: "('n gage_properties \<Rightarrow> 'n option) \<Rightarrow> 'n siteMap \<Rightarrow> string \<Rightarrow> 'n option" where
  "field_of fld m c = (case map_of m c of None \<Rightarrow> None | Some f \<Rightarrow> fld (properties f))"

section \<open>The page: the map host and the browser objects the modules share\<close>

subsection \<open>JavaScript numbers\<close>

text \<open>
  A JavaScript number is an IEEE 754 double: not a number, an infinity, or a finite value.
  \<open>Finite m e\<close> is the value \<open>m * 2 ^ e\<close>; every finite double has this form (with
  \<open>\<bar>m\<bar> < 2 ^ 53\<close> and \<open>- 1074 \<le> e\<close>), and so has the exact difference of two doubles.
  The sign of a zero is not kept: no operation below tells the two zeros apart.
\<close>

datatype number = NaN | PosInf | NegInf | Finite int int

text \<open>The real number a finite value stands for.\<close>

definition dyadic :: "int \<Rightarrow> int \<Rightarrow> real" where
  "dyadic m e = (if 0 \<le> e then of_int m * 2 ^ nat e else of_int m / 2 ^ nat (- e))"

text \<open>The number of binary digits of a positive integer.\<close>

function bit_length :: "int \<Rightarrow> int" where
  "bit_length n = (if n \<le> 0 then 0 else 1 + bit_length (n div 2))"
  by pat_completeness auto
termination
  by (relation "measure nat") auto

declare bit_length.simps [simp del]

text \<open>\<open>n / 2 ^ s\<close> rounded to the nearest integer, a tie going to the even one.\<close>

definition round_half_even :: "int \<Rightarrow> nat \<Rightarrow> int" where
  "round_half_even n s =
     (let q = n div 2 ^ s; r = n mod 2 ^ s; half = 2 ^ (s - 1)
      in if r < half then q
         else if half < r then q + 1
         else if even q then q else q + 1)"

text \<open>
  The double nearest to \<open>m * 2 ^ e\<close> (round to nearest, ties to even). With \<open>k\<close> binary
  digits in \<open>\<bar>m\<bar>\<close> the last place of the result has the exponent \<open>k + e - 53\<close>, and not
  less than \<open>- 1074\<close>, the last place of the subnormal doubles; a result of \<open>2 ^ 1024\<close> or
  more is an infinity.
\<close>

definition round_double :: "int \<Rightarrow> int \<Rightarrow> number" where
  "round_double m e =
     (if m = 0 then Finite 0 0
      else
        let k = bit_length \<bar>m\<bar>;
            t = max (k + e - 53) (- 1074);
            q = (if t \<le> e then \<bar>m\<bar> else round_half_even \<bar>m\<bar> (nat (t - e)));
            t' = (if t \<le> e then e else t)
        in if 1024 < bit_length q + t'
           then (if 0 < m then PosInf else NegInf)
           else Finite (sgn m * q) t')"

text \<open>The operators \<open>-\<close> and \<open><\<close> and \<open>Math.abs\<close> on numbers.\<close>

fun number_sub :: "number \<Rightarrow> number \<Rightarrow> number" where
  "number_sub NaN y = NaN"
| "number_sub x NaN = NaN"
| "number_sub PosInf PosInf = NaN"
| "number_sub NegInf NegInf = NaN"
| "number_sub PosInf y = PosInf"
| "number_sub NegInf y = NegInf"
| "number_sub (Finite m e) PosInf = NegInf"
| "number_sub (Finite m e) NegInf = PosInf"
| "number_sub (Finite m1 e1) (Finite m2 e2) =
     (let e = min e1 e2
      in round_double (m1 * 2 ^ nat (e1 - e) - m2 * 2 ^ nat (e2 - e)) e)"

fun number_abs :: "number \<Rightarrow> number" where
  "number_abs NaN = NaN"
| "number_abs PosInf = PosInf"
| "number_abs NegInf = PosInf"
| "number_abs (Finite m e) = Finite \<bar>m\<bar> e"

fun number_less :: "number \<Rightarrow> number \<Rightarrow> bool" where
  "number_less NaN y = False"
| "number_less x NaN = False"
| "number_less x NegInf = False"
| "number_less PosInf y = False"
| "number_less NegInf y = True"
| "number_less (Finite m e) PosInf = True"
| "number_less (Finite m1 e1) (Finite m2 e2) =
     (let e = min e1 e2 in m1 * 2 ^ nat (e1 - e) < m2 * 2 ^ nat (e2 - e))"

text \<open>
  The number the literal \<open>0.01\<close> denotes: the double nearest to one hundredth,
  \<open>0x1.47ae147ae147bp-7\<close>, which lies a little above it.
\<close>

definition literal_0_01 :: number where
  "literal_0_01 = Finite 5764607523034235 (- 59)"

text \<open>A viewport rectangle (\<open>L.LatLngBounds\<close>): four numbers, in degrees.\<close>

record bounds =
  west :: number
  south :: number
  east :: number
  north :: number

text \<open>The Leaflet map: its viewport and the layers shown on it (by object identity).\<close>

record lmap =
  m_bounds :: bounds
  m_layers :: "nat list"

text \<open>A request handed to \<open>fetch\<close>: the service, the layer and the query parameters.\<close>

record request =
  rq_service :: string
  rq_layerId :: nat
  rq_params :: "(string \<times> string) list"

text \<open>
  The state a module can reach from the page. \<open>the_map\<close>, \<open>overlayLayers\<close> and
  \<open>layerControl\<close> are the variables \<open>_map\<close>, \<open>_overlayLayers\<close> and \<open>_layerControl\<close> of
  map-core.js (the control, when there is one, lists the overlays it was told of).
  \<open>layers\<close> is the store of \<open>L.geoJSON\<close> layer objects: a layer is known by its
  identity (a number) and holds the features it displays; \<open>nextLayer\<close> is the identity
  the next created layer gets. \<open>timers\<close> holds the active \<open>setInterval\<close> handles with
  their intervals, \<open>requests\<close> every \<open>fetch\<close> issued so far, \<open>console\<close> what was logged
  and \<open>loader\<close> the text of the loading indicator while it is shown.
\<close>

record 'f page =
  the_map :: "lmap option"
  overlayLayers :: "(string \<times> nat) list"
  layerControl :: "(nat \<times> string) list option"
  layers :: "(nat \<times> 'f list) list"
  nextLayer :: nat
  timers :: "(nat \<times> nat) list"
  nextTimer :: nat
  requests :: "request list"
  console :: "log_entry list"
  loader :: "string option"

text \<open>
  The outcome of one \<open>fetch\<close>: the promise rejects (transport failure), or a response
  arrives with a status and a body; the body is \<open>None\<close> when \<open>response.json()\<close> rejects.
\<close>

datatype 'd fetch_result = Rejected | Response nat "'d option"

definition response_ok :: "nat \<Rightarrow> bool" where
  "response_ok status = (200 \<le> status \<and> status \<le> 299)"

text \<open>A fetch fails when it rejects or reports a status outside 200..299.\<close>

definition fetch_failed :: "'d fetch_result \<Rightarrow> bool" where
  "fetch_failed fr = (case fr of Rejected \<Rightarrow> True | Response status _ \<Rightarrow> \<not> response_ok status)"

definition console_log :: "log_entry \<Rightarrow> 'f page \<Rightarrow> 'f page" where
  "console_log e p = p\<lparr>console := console p @ [e]\<rparr>"

subsection \<open>map-core.js\<close>

text \<open>\<open>L.geoJSON(...)\<close>: a new layer object holding the given features.\<close>

definition new_layer :: "'f list \<Rightarrow> 'f page \<Rightarrow> nat \<times> 'f page" where
  "new_layer fs p =
     (nextLayer p, p\<lparr>layers := AList.update (nextLayer p) fs (layers p),
                     nextLayer := Suc (nextLayer p)\<rparr>)"

text \<open>\<open>layer.clearLayers(); layer.addData(fs)\<close> on an existing layer object.\<close>

definition set_layer_data :: "nat \<Rightarrow> 'f list \<Rightarrow> 'f page \<Rightarrow> 'f page" where
  "set_layer_data l fs p = p\<lparr>layers := AList.update l fs (layers p)\<rparr>"

text \<open>
  \<open>addOverlayLayer(name, layer, visible)\<close>. \<open>layer.addTo(_map)\<close> throws when \<open>_map\<close> is
  \<open>null\<close>, after the two assignments before it took place: the result is the error, if
  any, and the state reached.
\<close>

definition addOverlayLayer ::
  "string \<Rightarrow> nat \<Rightarrow> bool \<Rightarrow> 'f page \<Rightarrow> js_error option \<times> 'f page" where
  "addOverlayLayer name layer visible p =
     (let p1 = p\<lparr>overlayLayers := AList.update name layer (overlayLayers p)\<rparr>;
          p2 = (case layerControl p1 of
                  None \<Rightarrow> p1
                | Some entries \<Rightarrow> p1\<lparr>layerControl := Some (entries @ [(layer, name)])\<rparr>)
      in if visible
         then (case the_map p2 of
                 None \<Rightarrow> (Some TypeError, p2)
               | Some m \<Rightarrow>
                   (None, p2\<lparr>the_map := Some (m\<lparr>m_layers := List.insert layer (m_layers m)\<rparr>)\<rparr>))
         else (None, p2))"






definition showLoading :: "string \<Rightarrow> 'f page \<Rightarrow> 'f page" where
  "showLoading message p = p\<lparr>loader := Some message\<rparr>"

definition hideLoading :: "'f page \<Rightarrow> 'f page" where
  "hideLoading p = p\<lparr>loader := None\<rparr>"

definition showError :: "string \<Rightarrow> 'f page \<Rightarrow> 'f page" where
  "showError message p = console_log (Error message) p"


subsection \<open>The refresh timers\<close>

text \<open>
  \<open>setInterval(f, interval)\<close> returns a fresh handle and \<open>clearInterval(handle)\<close> ends the
  timer. The guard \<open>if (_refreshInterval)\<close> of \<open>stopAutoRefresh\<close> tests the handle for
  truthiness: \<open>null\<close> and \<open>0\<close> do not pass.
\<close>

definition setInterval :: "nat \<Rightarrow> 'f page \<Rightarrow> nat \<times> 'f page" where
  "setInterval interval p =
     (nextTimer p, p\<lparr>timers := timers p @ [(nextTimer p, interval)],
                     nextTimer := Suc (nextTimer p)\<rparr>)"

definition clearInterval :: "nat \<Rightarrow> 'f page \<Rightarrow> 'f page" where
  "clearInterval handle p = p\<lparr>timers := filter (\<lambda>t. fst t \<noteq> handle) (timers p)\<rparr>"

section \<open>rivers.js: the adapter\<close>

text \<open>The module variables \<open>_gageLayer\<close>, \<open>_streamLayer\<close>, \<open>_gageData\<close>, \<open>_refreshInterval\<close>.\<close>

record 'n rivers =
  gageLayer :: "nat option"
  streamLayer :: "nat option"
  gageData :: "'n usgs_data option"
  rv_refreshInterval :: "nat option"

type_synonym 'n rivers_world = "'n rivers \<times> 'n gage_feature page"

text \<open>
  \<open>fetchGageData\<close> from the point where \<open>fetch\<close> settles: a rejection, a status that is
  not ok and a body that is not JSON are logged with \<open>console.error\<close> and thrown again
  (\<open>None\<close>); otherwise the data is stored in \<open>_gageData\<close> and returned.
\<close>

definition fetchGageData ::
  "'n usgs_data fetch_result \<Rightarrow> 'n rivers_world \<Rightarrow> 'n rivers_world \<times> 'n usgs_data option" where
  "fetchGageData fr w =
     (case w of (r, p) \<Rightarrow>
        (case fr of
           Rejected \<Rightarrow> ((r, console_log (Error ''USGS API error:'') p), None)
         | Response status body \<Rightarrow>
             if \<not> response_ok status
             then ((r, console_log (Error ''USGS API error:'') p), None)
             else (case body of
                     None \<Rightarrow> ((r, console_log (Error ''USGS API error:'') p), None)
                   | Some d \<Rightarrow> ((r\<lparr>gageData := Some d\<rparr>, p), Some d))))"

definition rv_stopAutoRefresh :: "'n rivers_world \<Rightarrow> 'n rivers_world" where
  "rv_stopAutoRefresh w =
     (case w of (r, p) \<Rightarrow>
        (case rv_refreshInterval r of
           None \<Rightarrow> (r, p)
         | Some h \<Rightarrow>
             if h \<noteq> 0 then (r\<lparr>rv_refreshInterval := None\<rparr>, clearInterval h p) else (r, p)))"

text \<open>
  \<open>startAutoRefresh(interval, options)\<close>: any running timer is stopped and a new one is
  armed. What the timer runs on each tick is \<open>rv_refresh_tick\<close> below.
\<close>

definition rv_startAutoRefresh :: "nat \<Rightarrow> 'n rivers_world \<Rightarrow> 'n rivers_world" where
  "rv_startAutoRefresh interval w =
     (case rv_stopAutoRefresh w of (r, p) \<Rightarrow>
        (case setInterval interval p of (h, p') \<Rightarrow> (r\<lparr>rv_refreshInterval := Some h\<rparr>, p')))"

text \<open>
  The body of the timer callback, from the point where the fetch of that tick settles:
  the \<open>try\<close> block covers \<open>fetchGageData\<close> and \<open>convertToGeoJSON\<close>, and the \<open>catch\<close> only
  warns.
\<close>

definition rv_refresh_tick ::
  "(string \<Rightarrow> 'n) \<Rightarrow> 'n usgs_data fetch_result \<Rightarrow> 'n rivers_world \<Rightarrow> 'n rivers_world" where
  "rv_refresh_tick parseFloat fr w =
     (case fetchGageData fr w of
        ((r, p), None) \<Rightarrow> (r, console_log (Warn ''Gage refresh failed:'') p)
      | ((r, p), Some d) \<Rightarrow>
          (case convertToGeoJSON parseFloat d of
             Inl e \<Rightarrow> (r, console_log (Warn ''Gage refresh failed:'') p)
           | Inr geojson \<Rightarrow>
               (case gageLayer r of
                  None \<Rightarrow> (r, p)
                | Some l \<Rightarrow> (r, set_layer_data l (features geojson) p))))"


section \<open>The weather hazard module (\<open>IAHazardLayers\<close>)\<close>

text \<open>
  The kinds of geometry a GeoJSON feature can carry; the coordinates play no part in what
  the module decides.
\<close>

datatype geometry =
  Point | MultiPoint | LineString | MultiLineString | Polygon | MultiPolygon | GeometryCollection

text \<open>
  An alert feature of the NWS collection, with the properties the module reads. Its
  \<open>geometry\<close> is \<open>null\<close> for an alert that is issued for forecast zones only.
\<close>

record alert =
  al_id :: string
  al_geometry :: "geometry option"
  expires :: "string option"
  severity :: "string option"
  event :: "string option"

record alert_collection =
  alert_features :: "alert list"

text \<open>
  \<open>new Date(s)\<close> gives a time value in milliseconds or an invalid date, and the empty
  string is never a valid date; how other strings parse is the platform's business and a
  parameter here. Comparing with an invalid date is false.
\<close>

definition new_Date :: "(string \<Rightarrow> int option) \<Rightarrow> string \<Rightarrow> int option" where
  "new_Date parse s = (if s = [] then None else parse s)"

text \<open>
  The \<open>filter\<close> option of \<open>createLayer\<close>; \<open>now\<close> is the value of \<open>new Date()\<close> when the
  layer is filled. \<open>if (expires)\<close> passes for a non-empty string.
\<close>

definition alert_filter :: "(string \<Rightarrow> int option) \<Rightarrow> int \<Rightarrow> alert \<Rightarrow> bool" where
  "alert_filter parse now feature =
     (case expires feature of
        None \<Rightarrow> True
      | Some e \<Rightarrow>
          if e \<noteq> []
          then (case new_Date parse e of None \<Rightarrow> False | Some t \<Rightarrow> t > now)
          else True)"

text \<open>
  \<open>L.geoJSON(data, {filter: ...})\<close> and \<open>layer.addData(data)\<close> go through the features of
  the collection: a feature whose \<open>geometry\<close> is \<open>null\<close> is passed over before the filter
  is asked, and of the others those that the filter accepts become sub-layers.
\<close>

definition geoJSON_filtered :: "(string \<Rightarrow> int option) \<Rightarrow> int \<Rightarrow> alert_collection \<Rightarrow> alert list" where
  "geoJSON_filtered parse now data =
     filter (alert_filter parse now)
       (filter (\<lambda>feature. al_geometry feature \<noteq> None) (alert_features data))"

text \<open>The module variables \<open>_layer\<close>, \<open>_data\<close>, \<open>_refreshInterval\<close>.\<close>

record hazards =
  hz_layer :: "nat option"
  hz_data :: "alert_collection option"
  hz_refreshInterval :: "nat option"

type_synonym hazards_world = "hazards \<times> alert page"

definition hz_createLayer ::
  "(string \<Rightarrow> int option) \<Rightarrow> int \<Rightarrow> alert_collection \<Rightarrow> alert page \<Rightarrow> nat \<times> alert page" where
  "hz_createLayer parse now data p = new_layer (geoJSON_filtered parse now data) p"

definition fetchAlerts ::
  "alert_collection fetch_result \<Rightarrow> hazards_world \<Rightarrow> hazards_world \<times> alert_collection option" where
  "fetchAlerts fr w =
     (case w of (z, p) \<Rightarrow>
        (case fr of
           Rejected \<Rightarrow> ((z, console_log (Error ''NWS API error:'') p), None)
         | Response status body \<Rightarrow>
             if \<not> response_ok status
             then ((z, console_log (Error ''NWS API error:'') p), None)
             else (case body of
                     None \<Rightarrow> ((z, console_log (Error ''NWS API error:'') p), None)
                   | Some d \<Rightarrow> ((z\<lparr>hz_data := Some d\<rparr>, p), Some d))))"

definition hz_stopAutoRefresh :: "hazards_world \<Rightarrow> hazards_world" where
  "hz_stopAutoRefresh w =
     (case w of (z, p) \<Rightarrow>
        (case hz_refreshInterval z of
           None \<Rightarrow> (z, p)
         | Some h \<Rightarrow>
             if h \<noteq> 0 then (z\<lparr>hz_refreshInterval := None\<rparr>, clearInterval h p) else (z, p)))"

definition hz_startAutoRefresh :: "nat \<Rightarrow> hazards_world \<Rightarrow> hazards_world" where
  "hz_startAutoRefresh interval w =
     (case hz_stopAutoRefresh w of (z, p) \<Rightarrow>
        (case setInterval interval p of (h, p') \<Rightarrow> (z\<lparr>hz_refreshInterval := Some h\<rparr>, p')))"

text \<open>The timer callback of \<open>IAHazardLayers.startAutoRefresh\<close>, from the settled fetch on.\<close>

definition hz_refresh_tick ::
  "(string \<Rightarrow> int option) \<Rightarrow> int \<Rightarrow> alert_collection fetch_result \<Rightarrow> hazards_world \<Rightarrow> hazards_world" where
  "hz_refresh_tick parse now fr w =
     (case fetchAlerts fr w of
        ((z, p), None) \<Rightarrow> (z, console_log (Warn ''Alert refresh failed:'') p)
      | ((z, p), Some d) \<Rightarrow>
          (case hz_layer z of
             None \<Rightarrow> (z, p)
           | Some l \<Rightarrow> (z, set_layer_data l (geoJSON_filtered parse now d) p)))"

text \<open>The options of \<open>addToMap\<close> that decide what happens to the page.\<close>

record hz_options =
  opt_visible :: "bool option"
  opt_autoRefresh :: "bool option"
  opt_refreshInterval :: "nat option"

definition hz_interval :: "hz_options \<Rightarrow> nat" where
  "hz_interval options =
     (case opt_refreshInterval options of
        None \<Rightarrow> 300000
      | Some n \<Rightarrow> if n = 0 then 300000 else n)"

text \<open>
  \<open>IAHazardLayers.addToMap(options)\<close>, with the outcome \<open>fr\<close> of its fetch: nothing
  happens without a map; a failure anywhere in the \<open>try\<close> block hides the loader and
  reports the error.
\<close>

definition hz_addToMap ::
  "(string \<Rightarrow> int option) \<Rightarrow> int \<Rightarrow> hz_options \<Rightarrow> alert_collection fetch_result \<Rightarrow>
   hazards_world \<Rightarrow> hazards_world" where
  "hz_addToMap parse now options fr w =
     (case w of (z0, p0) \<Rightarrow>
        (case the_map p0 of
           None \<Rightarrow> (z0, p0)
         | Some _ \<Rightarrow>
             (case fetchAlerts fr (z0, showLoading ''Loading weather alerts...'' p0) of
                ((z, p), None) \<Rightarrow>
                  (z, showError ''Failed to load weather alerts'' (hideLoading p))
              | ((z, p), Some d) \<Rightarrow>
                  (case hz_createLayer parse now d p of (l, p1) \<Rightarrow>
                     (let z1 = z\<lparr>hz_layer := Some l\<rparr> in
                      (case addOverlayLayer ''Weather Alerts'' l (opt_visible options \<noteq> Some False) p1 of
                         (Some e, p2) \<Rightarrow>
                           (z1, showError ''Failed to load weather alerts'' (hideLoading p2))
                       | (None, p2) \<Rightarrow>
                           (case (if opt_autoRefresh options \<noteq> Some False
                                  then hz_startAutoRefresh (hz_interval options) (z1, p2)
                                  else (z1, p2)) of
                              (z3, p3) \<Rightarrow> (z3, hideLoading p3))))))))"



section \<open>The refresh loops on the event loop\<close>

text \<open>
  Both refresh loops have the shape \<open>setInterval(async () => { try { ... await fetch ...
  } catch { warn } }, interval)\<close>. On the single UI thread two things happen to such a
  loop: the timer fires (\<open>Tick h\<close>: if the handle \<open>h\<close> is still armed the callback starts
  a fetch and suspends), and a fetch started earlier settles (\<open>Settle n r\<close>: the callback
  of the \<open>n\<close>-th started fetch resumes with the outcome \<open>r\<close> and runs to its end).
  Fetches are numbered in the order the ticks started them; the number is the event
  loop's knowledge, the callback has no variable that holds it.
\<close>

datatype 'r event = Tick nat | Settle nat 'r

record 'w loop =
  world :: 'w
  inflight :: "nat list"
  started :: nat

definition timer_active :: "nat \<Rightarrow> 'f page \<Rightarrow> bool" where
  "timer_active h p = (h \<in> set (map fst (timers p)))"

fun loop_step ::
  "('r \<Rightarrow> 'a \<times> 'f page \<Rightarrow> 'a \<times> 'f page) \<Rightarrow> ('a \<times> 'f page) loop \<Rightarrow> 'r event \<Rightarrow>
   ('a \<times> 'f page) loop" where
  "loop_step resume lp (Tick h) =
     (if timer_active h (snd (world lp))
      then lp\<lparr>inflight := inflight lp @ [Suc (started lp)], started := Suc (started lp)\<rparr>
      else lp)"
| "loop_step resume lp (Settle n r) =
     (if n \<in> set (inflight lp)
      then lp\<lparr>world := resume r (world lp), inflight := removeAll n (inflight lp)\<rparr>
      else lp)"

definition run_loop ::
  "('r \<Rightarrow> 'a \<times> 'f page \<Rightarrow> 'a \<times> 'f page) \<Rightarrow> ('a \<times> 'f page) loop \<Rightarrow> 'r event list \<Rightarrow>
   ('a \<times> 'f page) loop" where
  "run_loop resume lp evs = foldl (loop_step resume) lp evs"

text \<open>What a layer displays: the features of the layer object the variable refers to.\<close>

definition displayed :: "nat option \<Rightarrow> 'f page \<Rightarrow> 'f list option" where
  "displayed l p = (case l of None \<Rightarrow> None | Some i \<Rightarrow> map_of (layers p) i)"

text \<open>
  The callbacks of the two loops as the event loop resumes them. A tick of the hazard
  loop reads the clock when it fills the layer, so its outcome comes with that time.
\<close>

definition rv_resume ::
  "(string \<Rightarrow> 'n) \<Rightarrow> 'n usgs_data fetch_result \<Rightarrow> 'n rivers_world \<Rightarrow> 'n rivers_world" where
  "rv_resume parseFloat fr w = rv_refresh_tick parseFloat fr w"

definition hz_resume ::
  "(string \<Rightarrow> int option) \<Rightarrow> int \<times> alert_collection fetch_result \<Rightarrow> hazards_world \<Rightarrow>
   hazards_world" where
  "hz_resume parse r w = hz_refresh_tick parse (fst r) (snd r) w"

text \<open>What a gage layer displays once it is filled from a response.\<close>

definition gage_render :: "(string \<Rightarrow> 'n) \<Rightarrow> 'n usgs_data \<Rightarrow> 'n gage_feature list option" where
  "gage_render parseFloat d =
     (case convertToGeoJSON parseFloat d of Inl _ \<Rightarrow> None | Inr fc \<Rightarrow> Some (features fc))"

section \<open>The flood zone module (\<open>IAFloodZones\<close>)\<close>

definition NFHL_SERVICE :: string where
  "NFHL_SERVICE = ''https://hazards.fema.gov/gis/nfhl/rest/services/public/NFHL/MapServer''"

definition LAYERS_floodZones :: nat where
  "LAYERS_floodZones = 28"

text \<open>\<open>Array.prototype.join\<close>.\<close>

fun join :: "string \<Rightarrow> string list \<Rightarrow> string" where
  "join sep [] = []"
| "join sep [x] = x"
| "join sep (x # y # ys) = x @ sep @ join sep (y # ys)"

text \<open>
  \<open>URLSearchParams.set(name, value)\<close>: the first entry of that name takes the value and
  the other entries of that name go; without one, the pair is appended.
\<close>

fun params_set :: "string \<Rightarrow> string \<Rightarrow> (string \<times> string) list \<Rightarrow> (string \<times> string) list" where
  "params_set name v [] = [(name, v)]"
| "params_set name v (e # es) =
     (if fst e = name then (name, v) # filter (\<lambda>e'. fst e' \<noteq> name) es
      else e # params_set name v es)"

text \<open>\<open>URLSearchParams.get(name)\<close>: the value of the first entry of that name.\<close>

definition params_get :: "(string \<times> string) list \<Rightarrow> string \<Rightarrow> string option" where
  "params_get ps name = map_of ps name"

record fz_options =
  zoneFilter :: "string list option"
  layerId :: "nat option"

text \<open>
  The request \<open>queryFloodZones(bounds, options)\<close> hands to \<open>fetch\<close>. \<open>JSON_stringify\<close>
  stands for \<open>JSON.stringify\<close> on the envelope object built from the bounds. An array is
  truthy even when empty, so \<open>if (options.zoneFilter)\<close> asks whether the option is there;
  \<open>options.layerId || LAYERS.floodZones\<close> takes the default for \<open>0\<close> too.
\<close>

definition queryFloodZones :: "(bounds \<Rightarrow> string) \<Rightarrow> bounds \<Rightarrow> fz_options \<Rightarrow> request" where
  "queryFloodZones JSON_stringify b options =
     (let params0 =
            [(''geometry'', JSON_stringify b),
             (''geometryType'', ''esriGeometryEnvelope''),
             (''spatialRel'', ''esriSpatialRelIntersects''),
             (''outFields'',
              ''FLD_ZONE,ZONE_SUBTY,SFHA_TF,STATIC_BFE,DEPTH,VELOCITY,AR_REVERT,AR_SUBTRV,DUAL_ZONE''),
             (''returnGeometry'', ''true''),
             (''f'', ''geojson''),
             (''outSR'', ''4326'')];
          params =
            (case zoneFilter options of
               None \<Rightarrow> params0
             | Some zs \<Rightarrow>
                 params_set ''where''
                   (''FLD_ZONE IN ('' @
                    join '','' (map (\<lambda>z. [CHR 0x27] @ z @ [CHR 0x27]) zs) @ '')'')
                   params0)
      in \<lparr>rq_service = NFHL_SERVICE,
          rq_layerId = (case layerId options of
                          None \<Rightarrow> LAYERS_floodZones
                        | Some n \<Rightarrow> if n = 0 then LAYERS_floodZones else n),
          rq_params = params\<rparr>)"

text \<open>
  The rest of \<open>queryFloodZones\<close>, once \<open>fetch\<close> settled: a rejection and a status that is
  not ok are logged and thrown again. \<open>response.json()\<close> is returned without \<open>await\<close>, so
  a body that is not JSON rejects outside the \<open>try\<close> block and is not logged here.
\<close>

definition queryFloodZones_settle :: "'f list fetch_result \<Rightarrow> 'f page \<Rightarrow> 'f page \<times> 'f list option" where
  "queryFloodZones_settle fr p =
     (case fr of
        Rejected \<Rightarrow> (console_log (Error ''Flood zone query error:'') p, None)
      | Response status body \<Rightarrow>
          if \<not> response_ok status
          then (console_log (Error ''Flood zone query error:'') p, None)
          else (p, body))"

text \<open>The module variables \<open>_layer\<close> and \<open>_currentBounds\<close>.\<close>

record flood =
  fz_layer :: "nat option"
  currentBounds :: "bounds option"

definition boundsEqual :: "bounds \<Rightarrow> bounds \<Rightarrow> bool" where
  "boundsEqual a b =
     (let threshold = literal_0_01 in
      number_less (number_abs (number_sub (west a) (west b))) threshold \<and>
      number_less (number_abs (number_sub (south a) (south b))) threshold \<and>
      number_less (number_abs (number_sub (east a) (east b))) threshold \<and>
      number_less (number_abs (number_sub (north a) (north b))) threshold)"

text \<open>
  \<open>loadForCurrentView(options)\<close> up to its \<open>await\<close>: the two early returns, the
  assignment to \<open>_currentBounds\<close>, the loader and the call of \<open>fetch\<close>.
\<close>

definition loadForCurrentView ::
  "(bounds \<Rightarrow> string) \<Rightarrow> fz_options \<Rightarrow> flood \<times> 'f page \<Rightarrow> flood \<times> 'f page" where
  "loadForCurrentView JSON_stringify options w =
     (case w of (z, p) \<Rightarrow>
        (case the_map p of
           None \<Rightarrow> (z, p)
         | Some m \<Rightarrow>
             (let b = m_bounds m in
              if (case currentBounds z of None \<Rightarrow> False | Some cb \<Rightarrow> boundsEqual cb b)
              then (z, p)
              else (let p1 = showLoading ''Loading flood zones...'' p
                    in (z\<lparr>currentBounds := Some b\<rparr>,
                        p1\<lparr>requests := requests p1 @ [queryFloodZones JSON_stringify b options]\<rparr>)))))"

text \<open>\<open>loadForCurrentView\<close> after the \<open>await\<close>: the layer is updated in place or created.\<close>

definition loadForCurrentView_settle ::
  "'f list fetch_result \<Rightarrow> flood \<times> 'f page \<Rightarrow> flood \<times> 'f page" where
  "loadForCurrentView_settle fr w =
     (case w of (z, p) \<Rightarrow>
        (case queryFloodZones_settle fr p of
           (p1, None) \<Rightarrow> (z, showError ''Failed to load flood zones'' (hideLoading p1))
         | (p1, Some d) \<Rightarrow>
             (case fz_layer z of
                Some l \<Rightarrow> (z, hideLoading (set_layer_data l d p1))
              | None \<Rightarrow>
                  (case new_layer d p1 of (l, p2) \<Rightarrow> (z\<lparr>fz_layer := Some l\<rparr>, hideLoading p2)))))"


section \<open>The tribal boundaries module (\<open>IATribalBoundaries\<close>)\<close>

text \<open>The three presets of \<open>STYLES\<close>; \<open>getFeatureStyle(feature, 'default')\<close> is \<open>Default\<close>.\<close>

datatype style = Default | Highlighted | Selected

record tribal_props =
  tp_code :: "string option"
  tp_NAME :: "string option"

text \<open>
  The module variables. \<open>tb_layer\<close> is \<open>_layer\<close>: one sub-layer per feature of the data,
  in order, with the style it currently shows. Features are objects compared with
  \<open>!==\<close>, so \<open>_selectedFeature\<close> holds the position of the selected feature.
\<close>

record tribal =
  tb_layer :: "(tribal_props \<times> style) list option"
  tb_data :: "tribal_props list option"
  selectedFeature :: "nat option"

text \<open>\<open>createLayer\<close>: every feature starts in the default style.\<close>

definition tb_createLayer :: "tribal \<Rightarrow> tribal" where
  "tb_createLayer t =
     (case tb_data t of
        None \<Rightarrow> t
      | Some fs \<Rightarrow> t\<lparr>tb_layer := Some (map (\<lambda>f. (f, Default)) fs)\<rparr>)"

text \<open>\<open>layer.setStyle(st)\<close> on the sub-layer of feature \<open>i\<close>, when there is one.\<close>

definition setStyle :: "nat \<Rightarrow> style \<Rightarrow> tribal \<Rightarrow> tribal" where
  "setStyle i st t =
     (case tb_layer t of
        None \<Rightarrow> t
      | Some ls \<Rightarrow>
          if i < length ls then t\<lparr>tb_layer := Some (ls[i := (fst (ls ! i), st)])\<rparr> else t)"

text \<open>\<open>_layer.resetStyle()\<close> without an argument gives every sub-layer its default style.\<close>

definition resetStyle :: "tribal \<Rightarrow> tribal" where
  "resetStyle t = t\<lparr>tb_layer := map_option (map (\<lambda>(f, _). (f, Default))) (tb_layer t)\<rparr>"

text \<open>
  The handlers that \<open>onEachFeature\<close> attaches to the sub-layer of feature \<open>i\<close>. No click
  callback is registered (\<open>_onFeatureClick\<close> is \<open>null\<close>).
\<close>

definition mouseover :: "nat \<Rightarrow> tribal \<Rightarrow> tribal" where
  "mouseover i t = (if selectedFeature t \<noteq> Some i then setStyle i Highlighted t else t)"

definition mouseout :: "nat \<Rightarrow> tribal \<Rightarrow> tribal" where
  "mouseout i t = (if selectedFeature t \<noteq> Some i then setStyle i Default t else t)"

definition click :: "nat \<Rightarrow> tribal \<Rightarrow> tribal" where
  "click i t =
     (let t1 = (case selectedFeature t of
                  None \<Rightarrow> t
                | Some j \<Rightarrow> if j \<noteq> i then resetStyle t else t)
      in setStyle i Selected (t1\<lparr>selectedFeature := Some i\<rparr>))"

text \<open>
  \<open>String.prototype.toLowerCase\<close> and \<open>replace(/\s+/g, '-')\<close>. A string is a sequence of
  code units below 256 here. Of these, the letters \<open>A\<close> to \<open>Z\<close> and the capital letters
  from U+00C0 to U+00DE (but not U+00D7, the multiplication sign) have a lower case form,
  32 places on; the white space characters \<open>\s\<close> matches are tab, line feed, vertical
  tab, form feed, carriage return, space and the no-break space U+00A0.
\<close>

definition toLowerCase :: "string \<Rightarrow> string" where
  "toLowerCase s =
     map (\<lambda>c. let n = (of_char c :: nat)
              in if (65 \<le> n \<and> n \<le> 90) \<or> (192 \<le> n \<and> n \<le> 222 \<and> n \<noteq> 215)
                 then char_of (n + 32) else c) s"

definition is_space :: "char \<Rightarrow> bool" where
  "is_space c = (let n = (of_char c :: nat) in (9 \<le> n \<and> n \<le> 13) \<or> n = 32 \<or> n = 160)"

function replace_spaces :: "string \<Rightarrow> string" where
  "replace_spaces [] = []"
| "replace_spaces (c # cs) =
     (if is_space c then CHR ''-'' # replace_spaces (dropWhile is_space cs)
      else c # replace_spaces cs)"
  by pat_completeness auto
termination
  by (relation "measure length") (auto simp: length_dropWhile_le less_Suc_eq_le)

text \<open>\<open>props.code || props.NAME?.toLowerCase().replace(/\s+/g, '-')\<close>.\<close>

definition feature_code :: "tribal_props \<Rightarrow> string option" where
  "feature_code props =
     (let from_name = map_option (\<lambda>n. replace_spaces (toLowerCase n)) (tp_NAME props)
      in case tp_code props of
           None \<Rightarrow> from_name
         | Some c \<Rightarrow> if c \<noteq> [] then Some c else from_name)"

text \<open>
  The callback of \<open>_layer.eachLayer\<close> in \<open>focusTribe\<close>, run over the sub-layers from
  position \<open>i\<close> on: a sub-layer whose code matches is zoomed to (which throws without a
  map), becomes \<open>_selectedFeature\<close> and gets the selected style. The result is the
  sub-layers, \<open>_selectedFeature\<close> and \<open>found\<close>.
\<close>

fun focus_each ::
  "bool \<Rightarrow> string \<Rightarrow> nat \<Rightarrow> (tribal_props \<times> style) list \<Rightarrow> nat option \<Rightarrow>
   js_error + ((tribal_props \<times> style) list \<times> nat option \<times> bool)" where
  "focus_each has_map code i [] sel = Inr ([], sel, False)"
| "focus_each has_map code i ((props, st) # rest) sel =
     (if feature_code props = Some code
      then (if \<not> has_map then Inl TypeError
            else (case focus_each has_map code (Suc i) rest (Some i) of
                    Inl e \<Rightarrow> Inl e
                  | Inr (rest', sel', found) \<Rightarrow> Inr ((props, Selected) # rest', sel', True)))
      else (case focus_each has_map code (Suc i) rest sel of
              Inl e \<Rightarrow> Inl e
            | Inr (rest', sel', found) \<Rightarrow> Inr ((props, st) # rest', sel', found)))"

text \<open>
  \<open>focusTribe(tribeCode)\<close>: the new module state and the returned flag. The page is only
  read here (\<open>getMap\<close>); the zoom and the popup it opens are not part of the module state.
\<close>

definition focusTribe :: "string \<Rightarrow> 'f page \<Rightarrow> tribal \<Rightarrow> js_error + (tribal \<times> bool)" where
  "focusTribe tribeCode p t =
     (case tb_layer t of
        None \<Rightarrow> Inr (t, False)
      | Some ls \<Rightarrow>
          (case tb_data t of
             None \<Rightarrow> Inr (t, False)
           | Some _ \<Rightarrow>
               (case focus_each (the_map p \<noteq> None) (toLowerCase tribeCode) 0 ls (selectedFeature t) of
                  Inl e \<Rightarrow> Inl e
                | Inr (ls', sel', found) \<Rightarrow>
                    Inr (t\<lparr>tb_layer := Some ls', selectedFeature := sel'\<rparr>, found))))"

text \<open>
  The state the click handler keeps: only the feature held in \<open>_selectedFeature\<close> may
  show the selected style.
\<close>

definition selection_consistent :: "tribal \<Rightarrow> bool" where
  "selection_consistent t =
     (case tb_layer t of
        None \<Rightarrow> True
      | Some ls \<Rightarrow>
          list_all (\<lambda>i. snd (ls ! i) = Selected \<longrightarrow> selectedFeature t = Some i) [0 ..< length ls])"

text \<open>The territories that show the selected style.\<close>

definition selected_positions :: "tribal \<Rightarrow> nat list" where
  "selected_positions t =
     (case tb_layer t of
        None \<Rightarrow> []
      | Some ls \<Rightarrow> filter (\<lambda>i. snd (ls ! i) = Selected) [0 ..< length ls])"

section \<open>Example inputs\<close>

text \<open>
  A response with three series: streamflow and gage height of site \<open>12010000\<close> and a
  streamflow series of site \<open>12020000\<close> that has no reading. Numbers are kept as the
  strings of the response (\<open>parseFloat\<close> is the identity here).
\<close>

definition ex_series_flow :: "string series" where
  "ex_series_flow =
     \<lparr>ts_siteCode = [''12010000''], ts_siteName = ''NASELLE RIVER NEAR NASELLE, WA'',
      ts_latitude = ''46.37'', ts_longitude = ''-123.74'',
      ts_variableCode = [''00060''],
      ts_values = [[\<lparr>rd_value = ''512'', rd_dateTime = Some ''2024-01-01T00:00''\<rparr>]]\<rparr>"

definition ex_series_height :: "string series" where
  "ex_series_height =
     \<lparr>ts_siteCode = [''12010000''], ts_siteName = ''NASELLE RIVER NEAR NASELLE, WA'',
      ts_latitude = ''46.37'', ts_longitude = ''-123.74'',
      ts_variableCode = [''00065''],
      ts_values = [[\<lparr>rd_value = ''4.10'', rd_dateTime = Some ''2024-01-01T00:00''\<rparr>,
                    \<lparr>rd_value = ''4.25'', rd_dateTime = Some ''2024-01-01T00:15''\<rparr>]]\<rparr>"

definition ex_series_empty :: "string series" where
  "ex_series_empty =
     \<lparr>ts_siteCode = [''12020000''], ts_siteName = ''CHEHALIS RIVER NEAR DOTY, WA'',
      ts_latitude = ''46.61'', ts_longitude = ''-123.27'',
      ts_variableCode = [''00060''],
      ts_values = [[]]\<rparr>"

definition ex_usgs :: "string usgs_data" where
  "ex_usgs =
     \<lparr>usgs_value = Some \<lparr>timeSeries = Some [ex_series_flow, ex_series_height, ex_series_empty]\<rparr>\<rparr>"

text \<open>The features \<open>convertToGeoJSON\<close> builds from \<open>ex_usgs\<close>.\<close>

definition ex_features :: "string gage_feature list" where
  "ex_features =
     [\<lparr>coordinates = (''-123.74'', ''46.37''),
       properties = \<lparr>siteCode = ''12010000'', siteName = ''NASELLE RIVER NEAR NASELLE, WA'',
                     dateTime = Some ''2024-01-01T00:00'',
                     streamflow = Some ''512'', gageHeight = Some ''4.25''\<rparr>\<rparr>,
      \<lparr>coordinates = (''-123.27'', ''46.61''),
       properties = \<lparr>siteCode = ''12020000'', siteName = ''CHEHALIS RIVER NEAR DOTY, WA'',
                     dateTime = None, streamflow = None, gageHeight = None\<rparr>\<rparr>]"

text \<open>A later response of the same site with another streamflow reading.\<close>

definition ex_usgs_later :: "string usgs_data" where
  "ex_usgs_later =
     \<lparr>usgs_value = Some \<lparr>timeSeries = Some
        [ex_series_flow\<lparr>ts_values :=
           [[\<lparr>rd_value = ''640'', rd_dateTime = Some ''2024-01-01T00:30''\<rparr>]]\<rparr>]\<rparr>\<rparr>"

text \<open>A viewport over the Pacific Northwest, in whole degrees.\<close>

definition ex_bounds :: bounds where
  "ex_bounds =
     \<lparr>west = Finite (- 125) 0, south = Finite 45 0, east = Finite (- 116) 0, north = Finite 49 0\<rparr>"

text \<open>The page after \<open>initMap\<close> with a layer control: a map, no overlays, nothing pending.\<close>

definition ex_page :: "'f page" where
  "ex_page =
     \<lparr>the_map = Some \<lparr>m_bounds = ex_bounds, m_layers = []\<rparr>,
      overlayLayers = [], layerControl = Some [], layers = [], nextLayer = 0,
      timers = [], nextTimer = 1, requests = [], console = [], loader = None\<rparr>"

text \<open>
  Three alerts: one that expired at the first instant below, one without \<open>expires\<close> and
  one that expires at the second instant. \<open>ex_parse\<close> reads the two time stamps as
  milliseconds since the epoch.
\<close>

definition ex_parse :: "string \<Rightarrow> int option" where
  "ex_parse s = map_of [(''2024-01-01T00:00:00Z'', 1704067200000),
                        (''2024-01-02T00:00:00Z'', 1704153600000)] s"

definition ex_alert_expired :: alert where
  "ex_alert_expired =
     \<lparr>al_id = ''urn:oid:1'', al_geometry = Some Polygon, expires = Some ''2024-01-01T00:00:00Z'',
      severity = Some ''Severe'', event = Some ''Flood Warning''\<rparr>"

definition ex_alert_open :: alert where
  "ex_alert_open =
     \<lparr>al_id = ''urn:oid:2'', al_geometry = Some Polygon, expires = None,
      severity = Some ''Minor'', event = Some ''Heat Advisory''\<rparr>"

definition ex_alert_future :: alert where
  "ex_alert_future =
     \<lparr>al_id = ''urn:oid:3'', al_geometry = Some MultiPolygon,
      expires = Some ''2024-01-02T00:00:00Z'',
      severity = Some ''Extreme'', event = Some ''Tsunami Warning''\<rparr>"

definition ex_alerts :: alert_collection where
  "ex_alerts = \<lparr>alert_features = [ex_alert_expired, ex_alert_open, ex_alert_future]\<rparr>"

definition ex_now :: int where
  "ex_now = 1704100000000"

text \<open>
  The river module after \<open>addGagesToMap\<close> succeeded on \<open>ex_page\<close> with the response
  \<open>ex_usgs\<close>: the gage layer is created and registered, and the refresh timer runs.
\<close>

definition ex_rivers_world :: "string rivers_world" where
  "ex_rivers_world =
     (case new_layer (case gage_render id ex_usgs of None \<Rightarrow> [] | Some fs \<Rightarrow> fs) ex_page of
        (l, p1) \<Rightarrow>
          rv_startAutoRefresh 900000
            (\<lparr>gageLayer = Some l, streamLayer = None, gageData = Some ex_usgs,
              rv_refreshInterval = None\<rparr>,
             snd (addOverlayLayer ''River Gages'' l True p1)))"

text \<open>The hazard module before and after \<open>addToMap\<close> succeeded on \<open>ex_page\<close>.\<close>

definition ex_hazards_start :: hazards_world where
  "ex_hazards_start = (\<lparr>hz_layer = None, hz_data = None, hz_refreshInterval = None\<rparr>, ex_page)"

definition ex_options :: hz_options where
  "ex_options = \<lparr>opt_visible = None, opt_autoRefresh = None, opt_refreshInterval = None\<rparr>"

definition ex_hazards_world :: hazards_world where
  "ex_hazards_world =
     hz_addToMap ex_parse ex_now ex_options (Response 200 (Some ex_alerts)) ex_hazards_start"

text \<open>The hazard module after a second \<open>addToMap\<close> that succeeded as the first did.\<close>

definition ex_hazards_twice :: hazards_world where
  "ex_hazards_twice =
     hz_addToMap ex_parse ex_now ex_options (Response 200 (Some ex_alerts)) ex_hazards_world"

text \<open>A later collection, in which only the third alert is left.\<close>

definition ex_alerts_later :: alert_collection where
  "ex_alerts_later = \<lparr>alert_features = [ex_alert_future]\<rparr>"

text \<open>
  Two ticks of the running timer start one fetch each; the fetch of the second tick
  settles first and the fetch of the first tick settles after it.
\<close>

definition ex_rivers_trace :: "string usgs_data fetch_result event list" where
  "ex_rivers_trace =
     [Tick 1, Tick 1,
      Settle 2 (Response 200 (Some ex_usgs_later)),
      Settle 1 (Response 200 (Some ex_usgs))]"

definition ex_rivers_after :: "string rivers_world loop" where
  "ex_rivers_after =
     run_loop (rv_resume id) \<lparr>world = ex_rivers_world, inflight = [], started = 0\<rparr> ex_rivers_trace"

definition ex_hazards_trace :: "(int \<times> alert_collection fetch_result) event list" where
  "ex_hazards_trace =
     [Tick 1, Tick 1,
      Settle 2 (ex_now, Response 200 (Some ex_alerts_later)),
      Settle 1 (ex_now, Response 200 (Some ex_alerts))]"

definition ex_hazards_after :: "hazards_world loop" where
  "ex_hazards_after =
     run_loop (hz_resume ex_parse) \<lparr>world = ex_hazards_world, inflight = [], started = 0\<rparr>
       ex_hazards_trace"

text \<open>
  The flood zone module before its first load, with the zone filter of the scenario, and a
  pan or zoom of the user that leaves the map at the bounds \<open>b\<close>.
\<close>

definition ex_flood_options :: fz_options where
  "ex_flood_options = \<lparr>zoneFilter = Some [''AE'', ''X''], layerId = None\<rparr>"

definition ex_stringify :: "bounds \<Rightarrow> string" where
  "ex_stringify b = ''{envelope}''"

definition ex_flood_start :: "flood \<times> unit page" where
  "ex_flood_start = (\<lparr>fz_layer = None, currentBounds = None\<rparr>, ex_page)"

definition move_to :: "bounds \<Rightarrow> flood \<times> 'f page \<Rightarrow> flood \<times> 'f page" where
  "move_to b w =
     (fst w, (snd w)\<lparr>the_map := map_option (\<lambda>m. m\<lparr>m_bounds := b\<rparr>) (the_map (snd w))\<rparr>)"

text \<open>
  The viewport \<open>ex_bounds\<close> after a small pan (west edge at \<open>- 125 + 1/256\<close>, south edge
  at \<open>45 - 1/256\<close>, north edge at \<open>49 + 1/128\<close>) and after a larger one (west edge at
  \<open>- 125 + 1/64\<close>).
\<close>

definition ex_bounds_near :: bounds where
  "ex_bounds_near =
     \<lparr>west = Finite (- 31999) (- 8), south = Finite 11519 (- 8), east = Finite (- 116) 0,
      north = Finite 6273 (- 7)\<rparr>"

definition ex_bounds_far :: bounds where
  "ex_bounds_far =
     \<lparr>west = Finite (- 7999) (- 6), south = Finite 45 0, east = Finite (- 116) 0,
      north = Finite 49 0\<rparr>"

definition ex_flood_loaded :: "flood \<times> unit page" where
  "ex_flood_loaded = loadForCurrentView ex_stringify ex_flood_options ex_flood_start"

text \<open>
  The tribal boundaries layer over two territories, one with a \<open>code\<close> property and one
  whose code comes from its \<open>NAME\<close>, and the state in which both show the selected style.
\<close>

definition ex_territories :: "tribal_props list" where
  "ex_territories =
     [\<lparr>tp_code = Some ''yakama'', tp_NAME = Some ''Yakama Nation''\<rparr>,
      \<lparr>tp_code = None, tp_NAME = Some ''Nez Perce''\<rparr>]"

definition ex_tribal :: tribal where
  "ex_tribal =
     tb_createLayer \<lparr>tb_layer = None, tb_data = Some ex_territories, selectedFeature = None\<rparr>"

definition ex_tribal_both :: tribal where
  "ex_tribal_both =
     \<lparr>tb_layer = Some [(\<lparr>tp_code = Some ''yakama'', tp_NAME = Some ''Yakama Nation''\<rparr>, Selected),
                       (\<lparr>tp_code = None, tp_NAME = Some ''Nez Perce''\<rparr>, Selected)],
      tb_data = Some ex_territories, selectedFeature = Some 1\<rparr>"

text \<open>
  Two viewports that differ in the west edge only: at the double \<open>0.01\<close> and at the double
  \<open>3e-19\<close> (\<open>0x1.622d6fbc91e01p-62\<close>). The module has queried the first, and the map has
  settled at the second.
\<close>

definition ex_bounds_hundredth :: bounds where
  "ex_bounds_hundredth =
     \<lparr>west = Finite 5764607523034235 (- 59), south = Finite 45 0, east = Finite 46 0,
      north = Finite 49 0\<rparr>"

definition ex_bounds_tiny :: bounds where
  "ex_bounds_tiny =
     \<lparr>west = Finite 6230756230241793 (- 114), south = Finite 45 0, east = Finite 46 0,
      north = Finite 49 0\<rparr>"

definition ex_flood_rounding :: "flood \<times> unit page" where
  "ex_flood_rounding =
     move_to ex_bounds_tiny
       (loadForCurrentView ex_stringify ex_flood_options (move_to ex_bounds_hundredth ex_flood_start))"

text \<open>An alert without \<open>expires\<close> that is issued for forecast zones and has no geometry.\<close>

definition ex_alert_zone :: alert where
  "ex_alert_zone =
     \<lparr>al_id = ''urn:oid:4'', al_geometry = None, expires = None,
      severity = Some ''Moderate'', event = Some ''Winter Storm Watch''\<rparr>"

definition ex_alerts_zone :: alert_collection where
  "ex_alerts_zone = \<lparr>alert_features = [ex_alert_expired, ex_alert_zone, ex_alert_open]\<rparr>"

text \<open>The two loops when both fetches are in flight.\<close>

definition ex_rivers_pending :: "string rivers_world loop" where
  "ex_rivers_pending = \<lparr>world = ex_rivers_world, inflight = [1, 2], started = 2\<rparr>"

definition ex_hazards_pending :: "hazards_world loop" where
  "ex_hazards_pending = \<lparr>world = ex_hazards_world, inflight = [1, 2], started = 2\<rparr>"

section \<open>Properties of \<open>convertToGeoJSON\<close>\<close>

lemma update_fresh: "map_of m k = None \<Longrightarrow> AList.update k v m = m @ [(k, v)]"
  by (induction m) (auto split: if_splits)

lemma map_entry_keys: "map fst (AList.map_entry k f m) = map fst m"
  by (induction m) auto

lemma map_of_map_entry:
  "map_of (AList.map_entry k f m) c =
     (if c = k then map_option f (map_of m k) else map_of m c)"
  by (induction m) auto

lemma series_step_eq:
  assumes "series_step pf m s = Inr m'"
  shows "\<exists>c pc. series_site s = Some c \<and> series_param s = Some pc \<and>
           m' = AList.map_entry c (add_parameter pf pc (series_latest s))
                  (if map_of m c = None then m @ [(c, new_feature s c)] else m)"
  using assms
  by (auto simp: series_step_def series_site_def series_param_def series_latest_def Let_def
      siteMap_has_def new_feature_def update_fresh split: list.splits if_splits)

lemma series_step_Inr:
  assumes "wf_series s"
  shows "\<exists>m'. series_step pf m s = Inr m'"
  using assms by (auto simp: wf_series_def series_step_def Let_def split: list.splits)

lemma add_parameter_siteCode [simp]:
  "siteCode (properties (add_parameter pf pc lv f)) = siteCode (properties f)"
  by (auto simp: add_parameter_def split: option.splits)

lemma map_entry_ok:
  "siteMap_ok m \<Longrightarrow> siteMap_ok (AList.map_entry k (add_parameter pf pc lv) m)"
  unfolding siteMap_ok_def
  by (induction m) (auto simp: map_entry_keys)

lemma snoc_ok:
  "siteMap_ok m \<Longrightarrow> map_of m c = None \<Longrightarrow> siteMap_ok (m @ [(c, new_feature s c)])"
  unfolding siteMap_ok_def
  by (auto simp: new_feature_def map_of_eq_None_iff)

lemma series_step_ok:
  assumes "series_step pf m s = Inr m'" "siteMap_ok m"
  shows "siteMap_ok m'"
  using series_step_eq[OF assms(1)] assms(2)
  by (auto simp: map_entry_ok snoc_ok)

lemma series_step_keys:
  assumes "series_step pf m s = Inr m'"
  shows "set (map fst m') = set (map fst m) \<union> {c. series_site s = Some c}"
proof -
  from series_step_eq[OF assms] obtain c pc where c: "series_site s = Some c"
    and m': "m' = AList.map_entry c (add_parameter pf pc (series_latest s))
                  (if map_of m c = None then m @ [(c, new_feature s c)] else m)"
    by blast
  have "map fst m' = (if map_of m c = None then map fst m @ [c] else map fst m)"
    unfolding m' map_entry_keys by simp
  then show ?thesis using c by (auto simp: map_of_eq_None_iff)
qed

lemma forEach_ok:
  "forEach_series pf tss m = Inr m' \<Longrightarrow> siteMap_ok m \<Longrightarrow> siteMap_ok m'"
  by (induction tss arbitrary: m) (auto split: sum.splits dest: series_step_ok)

lemma forEach_keys:
  "forEach_series pf tss m = Inr m' \<Longrightarrow>
   set (map fst m') = set (map fst m) \<union> {c. \<exists>s \<in> set tss. series_site s = Some c}"
proof (induction tss arbitrary: m)
  case Nil
  then show ?case by simp
next
  case (Cons s ss)
  then obtain m1 where st: "series_step pf m s = Inr m1" and r: "forEach_series pf ss m1 = Inr m'"
    by (auto split: sum.splits)
  show ?case
    unfolding Cons.IH[OF r] series_step_keys[OF st] by auto
qed

lemma forEach_Inr:
  "\<forall>s \<in> set tss. wf_series s \<Longrightarrow> \<exists>m'. forEach_series pf tss m = Inr m'"
proof (induction tss arbitrary: m)
  case Nil
  then show ?case by simp
next
  case (Cons s ss)
  then obtain m1 where "series_step pf m s = Inr m1"
    using series_step_Inr[of s pf m] by auto
  with Cons show ?case by auto
qed

lemma series_step_field:
  assumes "series_step pf m s = Inr m'"
  shows "field_of streamflow m' c =
           (if reports c PARAMETER_CODES_discharge s
            then map_option (\<lambda>lv. pf (rd_value lv)) (series_latest s)
            else field_of streamflow m c)"
    and "field_of gageHeight m' c =
           (if reports c PARAMETER_CODES_gageHeight s
            then map_option (\<lambda>lv. pf (rd_value lv)) (series_latest s)
            else field_of gageHeight m c)"
proof -
  from series_step_eq[OF assms] obtain c0 pc where c0: "series_site s = Some c0"
    and pc: "series_param s = Some pc"
    and m': "m' = AList.map_entry c0 (add_parameter pf pc (series_latest s))
                  (if map_of m c0 = None then m @ [(c0, new_feature s c0)] else m)"
    by blast
  note defs = field_of_def map_of_map_entry reports_def add_parameter_def new_feature_def
    PARAMETER_CODES_discharge_def PARAMETER_CODES_gageHeight_def map_add_def
  have other: "field_of fld m' c = field_of fld m c" if "c \<noteq> c0" for fld :: "'a gage_properties \<Rightarrow> 'a option"
    unfolding m' using that by (auto simp: defs split: option.splits)
  have same_flow: "field_of streamflow m' c0 =
           (if reports c0 PARAMETER_CODES_discharge s
            then map_option (\<lambda>lv. pf (rd_value lv)) (series_latest s)
            else field_of streamflow m c0)"
    unfolding m' using c0 pc
    by (cases "map_of m c0"; cases "series_latest s") (simp_all add: defs)
  have same_height: "field_of gageHeight m' c0 =
           (if reports c0 PARAMETER_CODES_gageHeight s
            then map_option (\<lambda>lv. pf (rd_value lv)) (series_latest s)
            else field_of gageHeight m c0)"
    unfolding m' using c0 pc
    by (cases "map_of m c0"; cases "series_latest s") (simp_all add: defs)
  show "field_of streamflow m' c =
           (if reports c PARAMETER_CODES_discharge s
            then map_option (\<lambda>lv. pf (rd_value lv)) (series_latest s)
            else field_of streamflow m c)"
    using other[of streamflow] same_flow c0 by (cases "c = c0") (auto simp: reports_def)
  show "field_of gageHeight m' c =
           (if reports c PARAMETER_CODES_gageHeight s
            then map_option (\<lambda>lv. pf (rd_value lv)) (series_latest s)
            else field_of gageHeight m c)"
    using other[of gageHeight] same_height c0 by (cases "c = c0") (auto simp: reports_def)
qed

lemma available_Cons:
  "available pf c code (s # ss) =
     (case available pf c code ss of
        Some v \<Rightarrow> Some v
      | None \<Rightarrow> if reports c code s
                then map_option (\<lambda>lv. pf (rd_value lv)) (series_latest s) else None)"
proof (cases "rev (filter (reports c code) ss)")
  case Nil
  then show ?thesis by (simp add: available_def)
next
  case (Cons t ts)
  then have "t \<in> set (filter (reports c code) ss)"
    by (metis list.set_intros(1) set_rev)
  then have "series_latest t \<noteq> None" by (simp add: reports_def)
  with Cons show ?thesis by (auto simp: available_def)
qed

lemma forEach_field:
  assumes step: "\<And>m s m' c. series_step pf m s = Inr m' \<Longrightarrow> field_of fld m' c =
     (if reports c code s
      then map_option (\<lambda>lv. pf (rd_value lv)) (series_latest s)
      else field_of fld m c)"
  shows "forEach_series pf tss m = Inr m' \<Longrightarrow>
     field_of fld m' c =
       (case available pf c code tss of Some v \<Rightarrow> Some v | None \<Rightarrow> field_of fld m c)"
proof (induction tss arbitrary: m)
  case Nil
  then show ?case by (simp add: available_def)
next
  case (Cons s ss)
  then obtain m1 where st: "series_step pf m s = Inr m1" and r: "forEach_series pf ss m1 = Inr m'"
    by (auto split: sum.splits)
  show ?case
    unfolding Cons.IH[OF r] step[OF st] available_Cons
    by (auto split: option.splits simp: reports_def)
qed

lemma ok_filter:
  "siteMap_ok m \<Longrightarrow> map_of m c = Some f \<Longrightarrow>
   filter (\<lambda>f. siteCode (properties f) = c) (map snd m) = [f]"
proof (induction m)
  case Nil
  then show ?case by simp
next
  case (Cons p m)
  obtain k g where p: "p = (k, g)" by (cases p)
  from Cons.prems(1) have ok: "siteMap_ok m" and kg: "siteCode (properties g) = k"
    and fresh: "k \<notin> fst ` set m" and all: "\<forall>(k', f') \<in> set m. siteCode (properties f') = k'"
    by (auto simp: siteMap_ok_def p)
  show ?case
  proof (cases "k = c")
    case True
    then have "f = g" using Cons.prems(2) p by simp
    moreover have "siteCode (properties g') \<noteq> c" if "g' \<in> set (map snd m)" for g'
    proof -
      from that obtain k' where in_m: "(k', g') \<in> set m" by auto
      with all have "siteCode (properties g') = k'" by auto
      moreover from in_m have "k' \<in> fst ` set m" by force
      ultimately show ?thesis using fresh True by auto
    qed
    then have "filter (\<lambda>f. siteCode (properties f) = c) (map snd m) = []"
      unfolding filter_empty_conv by blast
    ultimately show ?thesis using p kg True by simp
  next
    case False
    then show ?thesis using Cons.IH[OF ok] Cons.prems(2) p kg by simp
  qed
qed

text \<open>
  C2. A response whose series are well formed (each has a site code, a variable code and
  a block of values, as the USGS schema gives them) is converted without error, and for
  every site code that N >= 1 of its series share the collection holds exactly one
  feature with that site code; its \<open>streamflow\<close> is the reading the response makes
  available under code 00060 for the site and its \<open>gageHeight\<close> the one under 00065.
\<close>

theorem convertToGeoJSON_one_feature_per_site:
  assumes "usgs_value data = Some v" and "timeSeries v = Some tss"
    and wf: "\<forall>s \<in> set tss. wf_series s"
    and c: "\<exists>s \<in> set tss. series_site s = Some c"
  shows "\<exists>fc f. convertToGeoJSON parseFloat data = Inr fc \<and>
           filter (\<lambda>f. siteCode (properties f) = c) (features fc) = [f] \<and>
           streamflow (properties f) = available parseFloat c PARAMETER_CODES_discharge tss \<and>
           gageHeight (properties f) = available parseFloat c PARAMETER_CODES_gageHeight tss"
proof -
  obtain m where m: "forEach_series parseFloat tss [] = Inr m"
    using forEach_Inr[OF wf] by blast
  have ok: "siteMap_ok m" using forEach_ok[OF m] by (simp add: siteMap_ok_def)
  have "c \<in> set (map fst m)" using forEach_keys[OF m] c by auto
  then obtain f where f: "map_of m c = Some f"
    by (metis map_of_eq_None_iff not_Some_eq set_map)
  have sf: "streamflow (properties f) = available parseFloat c PARAMETER_CODES_discharge tss"
    using forEach_field[of parseFloat streamflow PARAMETER_CODES_discharge,
        OF series_step_field(1) m, of c] f
    by (auto simp: field_of_def split: option.splits)
  have gh: "gageHeight (properties f) = available parseFloat c PARAMETER_CODES_gageHeight tss"
    using forEach_field[of parseFloat gageHeight PARAMETER_CODES_gageHeight,
        OF series_step_field(2) m, of c] f
    by (auto simp: field_of_def split: option.splits)
  have "convertToGeoJSON parseFloat data = Inr \<lparr>features = map snd m\<rparr>"
    using assms(1,2) m by (simp add: convertToGeoJSON_def)
  with ok_filter[OF ok f] sf gh show ?thesis by simp
qed

theorem convertToGeoJSON_one_feature_per_site_witness:
  "usgs_value ex_usgs = Some \<lparr>timeSeries = Some [ex_series_flow, ex_series_height, ex_series_empty]\<rparr> \<and>
   wf_series ex_series_flow \<and> wf_series ex_series_height \<and> wf_series ex_series_empty \<and>
   series_site ex_series_flow = Some ''12010000'' \<and>
   series_site ex_series_height = Some ''12010000'' \<and>
   (\<exists>fc f. convertToGeoJSON id ex_usgs = Inr fc \<and>
      filter (\<lambda>f. siteCode (properties f) = ''12010000'') (features fc) = [f] \<and>
      streamflow (properties f) = Some ''512'' \<and> gageHeight (properties f) = Some ''4.25'')"
proof -
  let ?tss = "[ex_series_flow, ex_series_height, ex_series_empty]"
  let ?v = "\<lparr>timeSeries = Some ?tss\<rparr>"
  have h1: "usgs_value ex_usgs = Some ?v" by (simp add: ex_usgs_def)
  have h2: "timeSeries ?v = Some ?tss" by simp
  have h3: "\<forall>s \<in> set ?tss. wf_series s"
    by (simp add: wf_series_def ex_series_flow_def ex_series_height_def ex_series_empty_def)
  have h4: "\<exists>s \<in> set ?tss. series_site s = Some ''12010000''"
    by (simp add: series_site_def ex_series_flow_def)
  have a1: "available id ''12010000'' PARAMETER_CODES_discharge ?tss = Some ''512''"
    by (simp add: available_def reports_def series_site_def series_param_def series_latest_def
        ex_series_flow_def ex_series_height_def ex_series_empty_def
        PARAMETER_CODES_discharge_def)
  have a2: "available id ''12010000'' PARAMETER_CODES_gageHeight ?tss = Some ''4.25''"
    by (simp add: available_def reports_def series_site_def series_param_def series_latest_def
        ex_series_flow_def ex_series_height_def ex_series_empty_def
        PARAMETER_CODES_gageHeight_def)
  have h5: "series_site ex_series_height = Some ''12010000''"
    by (simp add: series_site_def ex_series_height_def)
  from convertToGeoJSON_one_feature_per_site[OF h1 h2 h3 h4, of id] a1 a2 h1 h3 h4 h5
  show ?thesis by (simp add: series_site_def ex_series_flow_def)
qed

text \<open>
  C10. When \<open>data.value\<close> or \<open>data.value.timeSeries\<close> is absent, \<open>convertToGeoJSON\<close>
  returns the empty feature collection and does not throw.
\<close>

theorem convertToGeoJSON_absent_is_empty:
  assumes "usgs_value data = None \<or> (\<exists>v. usgs_value data = Some v \<and> timeSeries v = None)"
  shows "convertToGeoJSON parseFloat data = Inr \<lparr>features = []\<rparr>"
  using assms by (auto simp: convertToGeoJSON_def)

theorem convertToGeoJSON_absent_is_empty_witness:
  "convertToGeoJSON (id :: string \<Rightarrow> string) \<lparr>usgs_value = None\<rparr> = Inr \<lparr>features = []\<rparr> \<and>
   convertToGeoJSON (id :: string \<Rightarrow> string) \<lparr>usgs_value = Some \<lparr>timeSeries = None\<rparr>\<rparr>
     = Inr \<lparr>features = []\<rparr>"
  using convertToGeoJSON_absent_is_empty[of "\<lparr>usgs_value = None\<rparr>" "id :: string \<Rightarrow> string"]
    convertToGeoJSON_absent_is_empty[of "\<lparr>usgs_value = Some \<lparr>timeSeries = None\<rparr>\<rparr>" "id :: string \<Rightarrow> string"]
  by simp

section \<open>Properties of the hazard layer\<close>

lemma displayed_new_layer:
  "new_layer fs p = (l, p') \<Longrightarrow> displayed (Some l) p' = Some fs"
  by (auto simp: new_layer_def displayed_def update_conv')

lemma displayed_set_layer_data:
  "displayed (Some l) (set_layer_data l fs p) = Some fs"
  by (simp add: set_layer_data_def displayed_def update_conv')

text \<open>
  C3, as the code has it. In the layer \<open>createLayer\<close> builds from a fetched collection, a
  feature whose \<open>expires\<close> is a time stamp strictly before the time the layer is built is
  not shown; a feature without \<open>expires\<close> is shown when it has a geometry; and a feature
  whose geometry is \<open>null\<close> is not shown, whatever its \<open>expires\<close>.
\<close>

theorem createLayer_drops_expired_keeps_open:
  assumes "hz_createLayer parse now data p = (l, p')"
  shows "\<exists>fs. displayed (Some l) p' = Some fs \<and>
           (\<forall>f \<in> set (alert_features data).
              (\<forall>e t. expires f = Some e \<and> new_Date parse e = Some t \<and> t < now \<longrightarrow> f \<notin> set fs) \<and>
              (expires f = None \<and> al_geometry f \<noteq> None \<longrightarrow> f \<in> set fs) \<and>
              (al_geometry f = None \<longrightarrow> f \<notin> set fs))"
proof -
  have "displayed (Some l) p' = Some (geoJSON_filtered parse now data)"
    using assms by (simp add: hz_createLayer_def displayed_new_layer)
  moreover have "f \<notin> set (geoJSON_filtered parse now data)"
    if "expires f = Some e" "new_Date parse e = Some t" "t < now" for f e t
    using that by (auto simp: geoJSON_filtered_def alert_filter_def new_Date_def split: if_splits)
  moreover have "f \<in> set (geoJSON_filtered parse now data)"
    if "f \<in> set (alert_features data)" "expires f = None" "al_geometry f \<noteq> None" for f
    using that by (simp add: geoJSON_filtered_def alert_filter_def)
  moreover have "f \<notin> set (geoJSON_filtered parse now data)" if "al_geometry f = None" for f
    using that by (simp add: geoJSON_filtered_def)
  ultimately show ?thesis by blast
qed

lemma ex_zone_layer:
  "hz_createLayer ex_parse ex_now ex_alerts_zone ex_page
     = (0, snd (new_layer [ex_alert_open] ex_page))"
  by (simp add: hz_createLayer_def geoJSON_filtered_def alert_filter_def new_Date_def
      ex_alerts_zone_def ex_alert_expired_def ex_alert_open_def ex_alert_zone_def ex_parse_def
      ex_now_def new_layer_def ex_page_def)

lemma ex_zone_facts:
  "ex_alert_expired \<in> set (alert_features ex_alerts_zone)"
  "expires ex_alert_expired = Some ''2024-01-01T00:00:00Z''"
  "new_Date ex_parse ''2024-01-01T00:00:00Z'' = Some 1704067200000"
  "(1704067200000 :: int) < ex_now"
  "ex_alert_open \<in> set (alert_features ex_alerts_zone)"
  "expires ex_alert_open = None" "al_geometry ex_alert_open = Some Polygon"
  "ex_alert_zone \<in> set (alert_features ex_alerts_zone)"
  "expires ex_alert_zone = None" "al_geometry ex_alert_zone = None"
  by (simp_all add: ex_alerts_zone_def ex_alert_expired_def ex_alert_open_def ex_alert_zone_def
      new_Date_def ex_parse_def ex_now_def)

theorem createLayer_drops_expired_keeps_open_witness:
  "hz_createLayer ex_parse ex_now ex_alerts_zone ex_page = (0, snd (new_layer [ex_alert_open] ex_page)) \<and>
   ex_alert_expired \<in> set (alert_features ex_alerts_zone) \<and>
   expires ex_alert_expired = Some ''2024-01-01T00:00:00Z'' \<and>
   new_Date ex_parse ''2024-01-01T00:00:00Z'' = Some 1704067200000 \<and>
   (1704067200000 :: int) < ex_now \<and>
   ex_alert_open \<in> set (alert_features ex_alerts_zone) \<and>
   expires ex_alert_open = None \<and> al_geometry ex_alert_open = Some Polygon \<and>
   ex_alert_zone \<in> set (alert_features ex_alerts_zone) \<and> al_geometry ex_alert_zone = None \<and>
   (\<exists>fs. displayed (Some 0) (snd (new_layer [ex_alert_open] ex_page)) = Some fs \<and>
      ex_alert_expired \<notin> set fs \<and> ex_alert_open \<in> set fs \<and> ex_alert_zone \<notin> set fs)"
proof -
  from createLayer_drops_expired_keeps_open[OF ex_zone_layer] ex_zone_facts
  obtain fs where "displayed (Some 0) (snd (new_layer [ex_alert_open] ex_page)) = Some fs"
    "ex_alert_expired \<notin> set fs" "ex_alert_open \<in> set fs" "ex_alert_zone \<notin> set fs"
    by blast
  with ex_zone_layer ex_zone_facts show ?thesis by blast
qed

text \<open>
  C3, as the claim states it, fails: the fourth alert of the example has no \<open>expires\<close>
  and is in the fetched collection, but it has no geometry and the layer built from the
  collection shows the second alert only.
\<close>

theorem createLayer_leaves_out_alert_without_geometry:
  "ex_alert_zone \<in> set (alert_features ex_alerts_zone) \<and>
   expires ex_alert_zone = None \<and>
   displayed (Some (fst (hz_createLayer ex_parse ex_now ex_alerts_zone ex_page)))
     (snd (hz_createLayer ex_parse ex_now ex_alerts_zone ex_page)) = Some [ex_alert_open] \<and>
   ex_alert_zone \<notin> set [ex_alert_open]"
proof -
  have "displayed (Some 0) (snd (new_layer [ex_alert_open] (ex_page :: alert page)))
          = Some [ex_alert_open]"
    by (simp add: new_layer_def ex_page_def displayed_def)
  moreover have "ex_alert_zone \<notin> set [ex_alert_open]"
    by (simp add: ex_alert_zone_def ex_alert_open_def)
  ultimately show ?thesis
    using ex_zone_facts by (simp add: ex_zone_layer)
qed

section \<open>Properties of the refresh loops\<close>

lemma fetchGageData_failed:
  "fetch_failed fr \<Longrightarrow>
   fetchGageData fr (r, p) = ((r, console_log (Error ''USGS API error:'') p), None)"
  by (cases fr) (auto simp: fetch_failed_def fetchGageData_def)

lemma fetchAlerts_failed:
  "fetch_failed fr \<Longrightarrow>
   fetchAlerts fr (z, p) = ((z, console_log (Error ''NWS API error:'') p), None)"
  by (cases fr) (auto simp: fetch_failed_def fetchAlerts_def)

text \<open>
  C5. A refresh tick whose fetch fails changes nothing but the console: the module
  variables and the page, with every layer object and so what the layer displays, are as
  before the tick, and the last thing logged is the warning of the tick.
\<close>

theorem failed_refresh_tick_keeps_layer:
  assumes "fetch_failed frv" and "fetch_failed fhz"
  shows "rv_refresh_tick parseFloat frv (r, p) =
           (r, p\<lparr>console := console p @ [Error ''USGS API error:'', Warn ''Gage refresh failed:'']\<rparr>) \<and>
         displayed (gageLayer r) (snd (rv_refresh_tick parseFloat frv (r, p))) = displayed (gageLayer r) p \<and>
         hz_refresh_tick parse now fhz (z, q) =
           (z, q\<lparr>console := console q @ [Error ''NWS API error:'', Warn ''Alert refresh failed:'']\<rparr>) \<and>
         displayed (hz_layer z) (snd (hz_refresh_tick parse now fhz (z, q))) = displayed (hz_layer z) q"
  using assms
  by (simp add: rv_refresh_tick_def hz_refresh_tick_def fetchGageData_failed fetchAlerts_failed
      console_log_def displayed_def split: option.splits)

theorem failed_refresh_tick_keeps_layer_witness:
  "fetch_failed (Rejected :: string usgs_data fetch_result) \<and>
   fetch_failed (Response 503 None :: alert_collection fetch_result) \<and>
   rv_refresh_tick id Rejected ex_rivers_world =
     (fst ex_rivers_world,
      (snd ex_rivers_world)\<lparr>console := console (snd ex_rivers_world) @
         [Error ''USGS API error:'', Warn ''Gage refresh failed:'']\<rparr>) \<and>
   displayed (gageLayer (fst ex_rivers_world)) (snd (rv_refresh_tick id Rejected ex_rivers_world))
     = displayed (gageLayer (fst ex_rivers_world)) (snd ex_rivers_world) \<and>
   hz_refresh_tick ex_parse ex_now (Response 503 None) ex_hazards_world =
     (fst ex_hazards_world,
      (snd ex_hazards_world)\<lparr>console := console (snd ex_hazards_world) @
         [Error ''NWS API error:'', Warn ''Alert refresh failed:'']\<rparr>) \<and>
   displayed (hz_layer (fst ex_hazards_world))
       (snd (hz_refresh_tick ex_parse ex_now (Response 503 None) ex_hazards_world))
     = displayed (hz_layer (fst ex_hazards_world)) (snd ex_hazards_world)"
proof -
  have h1: "fetch_failed (Rejected :: string usgs_data fetch_result)"
    by (simp add: fetch_failed_def)
  have h2: "fetch_failed (Response 503 None :: alert_collection fetch_result)"
    by (simp add: fetch_failed_def response_ok_def)
  from failed_refresh_tick_keeps_layer[OF h1 h2, of id "fst ex_rivers_world" "snd ex_rivers_world"
      ex_parse ex_now "fst ex_hazards_world" "snd ex_hazards_world", unfolded prod.collapse]
    h1 h2
  show ?thesis by blast
qed

lemma rv_refresh_tick_gageLayer:
  "gageLayer (fst (rv_refresh_tick pf fr (r, p))) = gageLayer r"
  by (cases fr)
    (auto simp: rv_refresh_tick_def fetchGageData_def split: option.splits sum.splits)

lemma rv_refresh_tick_ok:
  assumes "response_ok st" and "convertToGeoJSON pf d = Inr fc" and "gageLayer r = Some l"
  shows "displayed (Some l) (snd (rv_refresh_tick pf (Response st (Some d)) (r, p)))
           = Some (features fc)"
  using assms
  by (simp add: rv_refresh_tick_def fetchGageData_def displayed_set_layer_data)

lemma hz_refresh_tick_layer:
  "hz_layer (fst (hz_refresh_tick parse now fr (z, p))) = hz_layer z"
  by (cases fr)
    (auto simp: hz_refresh_tick_def fetchAlerts_def split: option.splits)

lemma hz_refresh_tick_ok:
  assumes "response_ok st" and "hz_layer z = Some l"
  shows "displayed (Some l) (snd (hz_refresh_tick parse now (Response st (Some d)) (z, p)))
           = Some (geoJSON_filtered parse now d)"
  using assms
  by (simp add: hz_refresh_tick_def fetchAlerts_def displayed_set_layer_data)

text \<open>
  C1, as the code has it. Neither callback knows which tick started it, and each
  successful completion fills the layer with its own data. So when the fetches of two
  ticks settle one after the other, the layer holds the data of the fetch that settled
  last, whichever of the two ticks started first.
\<close>

theorem refresh_last_settled_wins:
  assumes "world lp = (r, p)" and "gageLayer r = Some l"
    and "world lq = (z, q)" and "hz_layer z = Some k"
    and "n1 \<in> set (inflight lp)" and "n2 \<in> set (inflight lp)"
    and "n1 \<in> set (inflight lq)" and "n2 \<in> set (inflight lq)"
    and "n1 \<noteq> n2" and "response_ok st"
    and "convertToGeoJSON parseFloat d = Inr fc"
  shows "displayed (Some l)
           (snd (world (run_loop (rv_resume parseFloat) lp
              [Settle n1 fr1, Settle n2 (Response st (Some d))])))
           = Some (features fc) \<and>
         displayed (Some k)
           (snd (world (run_loop (hz_resume parse) lq
              [Settle n1 (now1, fa1), Settle n2 (now2, Response st (Some a))])))
           = Some (geoJSON_filtered parse now2 a)"
proof -
  obtain r1 p1 where w1: "rv_refresh_tick parseFloat fr1 (r, p) = (r1, p1)"
    by (cases "rv_refresh_tick parseFloat fr1 (r, p)")
  have l1: "gageLayer r1 = Some l"
    using rv_refresh_tick_gageLayer[of parseFloat fr1 r p] w1 assms(2) by simp
  have rivers: "displayed (Some l)
           (snd (world (run_loop (rv_resume parseFloat) lp
              [Settle n1 fr1, Settle n2 (Response st (Some d))])))
           = Some (features fc)"
    using assms(1,5,6,9) w1 rv_refresh_tick_ok[OF assms(10,11) l1, of p1]
    by (simp add: run_loop_def rv_resume_def)
  obtain z1 q1 where v1: "hz_refresh_tick parse now1 fa1 (z, q) = (z1, q1)"
    by (cases "hz_refresh_tick parse now1 fa1 (z, q)")
  have k1: "hz_layer z1 = Some k"
    using hz_refresh_tick_layer[of parse now1 fa1 z q] v1 assms(4) by simp
  have hazards: "displayed (Some k)
           (snd (world (run_loop (hz_resume parse) lq
              [Settle n1 (now1, fa1), Settle n2 (now2, Response st (Some a))])))
           = Some (geoJSON_filtered parse now2 a)"
    using assms(3,7,8,9) v1 hz_refresh_tick_ok[OF assms(10) k1, of parse now2 a q1]
    by (simp add: run_loop_def hz_resume_def)
  from rivers hazards show ?thesis by simp
qed

lemmas ex_hazards_defs = ex_hazards_world_def ex_hazards_start_def ex_page_def ex_options_def
  ex_alerts_def ex_alert_expired_def ex_alert_open_def ex_alert_future_def ex_parse_def ex_now_def
  ex_alerts_later_def

lemmas hazards_defs = hz_addToMap_def fetchAlerts_def response_ok_def showLoading_def
  hideLoading_def hz_createLayer_def new_layer_def geoJSON_filtered_def alert_filter_def
  new_Date_def addOverlayLayer_def hz_startAutoRefresh_def hz_stopAutoRefresh_def setInterval_def
  hz_interval_def Let_def

lemmas ex_rivers_defs = ex_rivers_world_def ex_page_def ex_usgs_def ex_series_flow_def
  ex_series_height_def ex_series_empty_def ex_usgs_later_def ex_features_def

lemmas rivers_defs = gage_render_def convertToGeoJSON_def series_step_def siteMap_has_def
  add_parameter_def PARAMETER_CODES_discharge_def PARAMETER_CODES_gageHeight_def new_layer_def
  addOverlayLayer_def rv_startAutoRefresh_def rv_stopAutoRefresh_def setInterval_def Let_def

lemma ex_usgs_converted: "convertToGeoJSON id ex_usgs = Inr \<lparr>features = ex_features\<rparr>"
  by (simp add: ex_rivers_defs rivers_defs)

lemma ex_rivers_world_layer: "gageLayer (fst ex_rivers_world) = Some 0"
  by (simp add: ex_rivers_defs rivers_defs)

lemma ex_hazards_world_layer: "hz_layer (fst ex_hazards_world) = Some 0"
  by (simp add: ex_hazards_defs hazards_defs)

theorem refresh_last_settled_wins_witness:
  "gageLayer (fst ex_rivers_world) = Some 0 \<and> hz_layer (fst ex_hazards_world) = Some 0 \<and>
   (2 :: nat) \<in> set (inflight ex_rivers_pending) \<and> (1 :: nat) \<in> set (inflight ex_rivers_pending) \<and>
   (2 :: nat) \<in> set (inflight ex_hazards_pending) \<and> (1 :: nat) \<in> set (inflight ex_hazards_pending) \<and>
   response_ok 200 \<and> convertToGeoJSON id ex_usgs = Inr \<lparr>features = ex_features\<rparr> \<and>
   displayed (Some 0)
     (snd (world (run_loop (rv_resume id) ex_rivers_pending
        [Settle 2 (Response 200 (Some ex_usgs_later)), Settle 1 (Response 200 (Some ex_usgs))])))
     = Some ex_features \<and>
   displayed (Some 0)
     (snd (world (run_loop (hz_resume ex_parse) ex_hazards_pending
        [Settle 2 (ex_now, Response 200 (Some ex_alerts_later)),
         Settle 1 (ex_now, Response 200 (Some ex_alerts))])))
     = Some (geoJSON_filtered ex_parse ex_now ex_alerts)"
proof -
  have w: "world ex_rivers_pending = (fst ex_rivers_world, snd ex_rivers_world)"
    "world ex_hazards_pending = (fst ex_hazards_world, snd ex_hazards_world)"
    by (simp_all add: ex_rivers_pending_def ex_hazards_pending_def)
  have i: "(2 :: nat) \<in> set (inflight ex_rivers_pending)" "(1 :: nat) \<in> set (inflight ex_rivers_pending)"
    "(2 :: nat) \<in> set (inflight ex_hazards_pending)" "(1 :: nat) \<in> set (inflight ex_hazards_pending)"
    by (simp_all add: ex_rivers_pending_def ex_hazards_pending_def)
  have n: "(2 :: nat) \<noteq> 1" by simp
  have ok: "response_ok 200" by (simp add: response_ok_def)
  from refresh_last_settled_wins[OF w(1) ex_rivers_world_layer w(2) ex_hazards_world_layer
      i(1) i(2) i(3) i(4) n ok ex_usgs_converted,
      of "Response 200 (Some ex_usgs_later)" ex_parse ex_now "Response 200 (Some ex_alerts_later)"
         ex_now ex_alerts]
    ex_rivers_world_layer ex_hazards_world_layer i ok ex_usgs_converted
  show ?thesis by simp
qed

text \<open>
  C1, as the claim states it, fails on both loops. Two ticks start a fetch each; the
  fetch of the second tick settles first and is applied, then the fetch of the first tick
  settles: the layer ends with the data of the first tick, not with the data of the tick
  that started later.
\<close>

theorem refresh_late_result_overwrites_newer:
  "displayed (gageLayer (fst (world ex_rivers_after))) (snd (world ex_rivers_after))
     = gage_render id ex_usgs \<and>
   displayed (gageLayer (fst (world ex_rivers_after))) (snd (world ex_rivers_after))
     \<noteq> gage_render id ex_usgs_later \<and>
   displayed (hz_layer (fst (world ex_hazards_after))) (snd (world ex_hazards_after))
     = Some (geoJSON_filtered ex_parse ex_now ex_alerts) \<and>
   displayed (hz_layer (fst (world ex_hazards_after))) (snd (world ex_hazards_after))
     \<noteq> Some (geoJSON_filtered ex_parse ex_now ex_alerts_later)"
proof -
  have rivers: "displayed (gageLayer (fst (world ex_rivers_after))) (snd (world ex_rivers_after))
     = Some ex_features"
    by (simp add: ex_rivers_after_def ex_rivers_trace_def run_loop_def timer_active_def
        rv_resume_def rv_refresh_tick_def fetchGageData_def response_ok_def set_layer_data_def
        displayed_def ex_rivers_defs rivers_defs)
  have r1: "gage_render id ex_usgs = Some ex_features"
    by (simp add: gage_render_def ex_usgs_converted)
  have r2: "gage_render id ex_usgs_later \<noteq> Some ex_features"
    by (simp add: ex_rivers_defs rivers_defs)
  have hazards: "displayed (hz_layer (fst (world ex_hazards_after))) (snd (world ex_hazards_after))
     = Some [ex_alert_open, ex_alert_future]"
    by (simp add: ex_hazards_after_def ex_hazards_trace_def run_loop_def timer_active_def
        hz_resume_def hz_refresh_tick_def set_layer_data_def displayed_def
        ex_hazards_defs hazards_defs)
  have h1: "geoJSON_filtered ex_parse ex_now ex_alerts = [ex_alert_open, ex_alert_future]"
    by (simp add: ex_hazards_defs hazards_defs)
  have h2: "geoJSON_filtered ex_parse ex_now ex_alerts_later = [ex_alert_future]"
    by (simp add: ex_hazards_defs hazards_defs)
  show ?thesis
    unfolding rivers hazards r1 h1 h2 using r2 by simp
qed

section \<open>Properties of \<open>removeFromMap\<close> and of the overlay registration\<close>















lemma addOverlayLayer_registers:
  "overlayLayers (snd (addOverlayLayer name l v h)) = AList.update name l (overlayLayers h)"
  by (auto simp: addOverlayLayer_def Let_def split: option.splits)

lemma addOverlayLayer_control:
  "layerControl (snd (addOverlayLayer name l v h))
     = map_option (\<lambda>es. es @ [(l, name)]) (layerControl h)"
  by (cases "layerControl h"; cases "the_map h") (simp_all add: addOverlayLayer_def Let_def)

lemma addOverlayLayer_with_map:
  assumes "the_map h \<noteq> None"
  shows "\<exists>h'. addOverlayLayer name l v h = (None, h') \<and> the_map h' \<noteq> None \<and>
           overlayLayers h' = AList.update name l (overlayLayers h) \<and>
           layerControl h' = map_option (\<lambda>es. es @ [(l, name)]) (layerControl h) \<and>
           nextLayer h' = nextLayer h"
  using assms
  by (cases "layerControl h") (auto simp: addOverlayLayer_def Let_def)

lemma hz_startAutoRefresh_page:
  "\<exists>z' p'. hz_startAutoRefresh i (z, p) = (z', p') \<and> hz_layer z' = hz_layer z \<and>
     overlayLayers p' = overlayLayers p \<and> layerControl p' = layerControl p \<and>
     nextLayer p' = nextLayer p \<and> the_map p' = the_map p"
  by (cases "hz_refreshInterval z")
    (auto simp: hz_startAutoRefresh_def hz_stopAutoRefresh_def setInterval_def clearInterval_def)

lemma hz_addToMap_ok:
  assumes "the_map p \<noteq> None" and "response_ok st"
    and "hz_addToMap parse now options (Response st (Some d)) (z, p) = (z', p')"
  shows "hz_layer z' = Some (nextLayer p) \<and>
         overlayLayers p' = AList.update ''Weather Alerts'' (nextLayer p) (overlayLayers p) \<and>
         layerControl p' =
           map_option (\<lambda>es. es @ [(nextLayer p, ''Weather Alerts'')]) (layerControl p) \<and>
         nextLayer p' = Suc (nextLayer p) \<and> the_map p' \<noteq> None"
proof -
  let ?p0 = "showLoading ''Loading weather alerts...'' p"
  let ?l = "nextLayer p"
  let ?z1 = "z\<lparr>hz_data := Some d, hz_layer := Some ?l\<rparr>"
  obtain p1 where c: "hz_createLayer parse now d ?p0 = (?l, p1)"
    and p1: "the_map p1 \<noteq> None" "overlayLayers p1 = overlayLayers p"
      "layerControl p1 = layerControl p" "nextLayer p1 = Suc ?l"
    using assms(1) by (simp add: hz_createLayer_def new_layer_def showLoading_def)
  from addOverlayLayer_with_map[OF p1(1), of "''Weather Alerts''" ?l "opt_visible options \<noteq> Some False"]
  obtain p2 where a: "addOverlayLayer ''Weather Alerts'' ?l (opt_visible options \<noteq> Some False) p1 = (None, p2)"
    and p2: "the_map p2 \<noteq> None"
      "overlayLayers p2 = AList.update ''Weather Alerts'' ?l (overlayLayers p)"
      "layerControl p2 = map_option (\<lambda>es. es @ [(?l, ''Weather Alerts'')]) (layerControl p)"
      "nextLayer p2 = Suc ?l"
    using p1 by auto
  have "\<exists>z3 p3. (if opt_autoRefresh options \<noteq> Some False
                     then hz_startAutoRefresh (hz_interval options) (?z1, p2)
                     else (?z1, p2)) = (z3, p3) \<and>
           hz_layer z3 = Some ?l \<and> the_map p3 = the_map p2 \<and>
           overlayLayers p3 = overlayLayers p2 \<and> layerControl p3 = layerControl p2 \<and>
           nextLayer p3 = nextLayer p2"
  proof (cases "opt_autoRefresh options \<noteq> Some False")
    case True
    then show ?thesis
      using hz_startAutoRefresh_page[of "hz_interval options" ?z1 p2] by auto
  next
    case False
    then show ?thesis by simp
  qed
  then obtain z3 p3 where r: "(if opt_autoRefresh options \<noteq> Some False
                          then hz_startAutoRefresh (hz_interval options) (?z1, p2)
                          else (?z1, p2)) = (z3, p3)"
    and p3: "hz_layer z3 = Some ?l" "the_map p3 = the_map p2" "overlayLayers p3 = overlayLayers p2"
      "layerControl p3 = layerControl p2" "nextLayer p3 = nextLayer p2"
    by blast
  have "hz_addToMap parse now options (Response st (Some d)) (z, p) = (z3, hideLoading p3)"
    using assms(1,2) c a r
    by (auto simp: hz_addToMap_def fetchAlerts_def)
  with assms(3) have "z' = z3" "p' = hideLoading p3" by simp_all
  with p2 p3 show ?thesis by (simp add: hideLoading_def)
qed

text \<open>
  C7, as the code has it. \<open>addToMap\<close> of the hazard module has no guard for a layer that
  is already added: a second call builds a new layer and registers it under the same
  display name. The host's name-to-layer mapping keeps the names it had, with one entry
  for the display name, but the entry then refers to the new layer and not to the first
  one, and the layer control is handed the overlay once more. At the host, whichever
  module calls, registering a name a second time replaces the entry of that name and
  hands the overlay to the layer control again.
\<close>

theorem addToMap_again_rebinds_overlay:
  assumes "the_map p \<noteq> None" and "response_ok st1" and "response_ok st2"
    and "hz_addToMap parse now1 o1 (Response st1 (Some d1)) (z, p) = (z1, p1)"
    and "hz_addToMap parse now2 o2 (Response st2 (Some d2)) (z1, p1) = (z2, p2)"
  shows "map fst (overlayLayers p2) = map fst (overlayLayers p1) \<and>
         map_of (overlayLayers p1) ''Weather Alerts'' = hz_layer z1 \<and>
         map_of (overlayLayers p2) ''Weather Alerts'' = hz_layer z2 \<and>
         hz_layer z1 = Some (nextLayer p) \<and> hz_layer z2 = Some (Suc (nextLayer p)) \<and>
         layerControl p2 =
           map_option (\<lambda>es. es @ [(Suc (nextLayer p), ''Weather Alerts'')]) (layerControl p1) \<and>
         map fst (overlayLayers (snd (addOverlayLayer name l' v' (snd (addOverlayLayer name l v h)))))
           = map fst (overlayLayers (snd (addOverlayLayer name l v h))) \<and>
         map_of (overlayLayers (snd (addOverlayLayer name l' v' (snd (addOverlayLayer name l v h))))) name
           = Some l' \<and>
         layerControl (snd (addOverlayLayer name l' v' (snd (addOverlayLayer name l v h))))
           = map_option (\<lambda>es. es @ [(l', name)]) (layerControl (snd (addOverlayLayer name l v h)))"
proof -
  note first = hz_addToMap_ok[OF assms(1,2,4)]
  then have m1: "the_map p1 \<noteq> None" by simp
  note second = hz_addToMap_ok[OF m1 assms(3,5)]
  have keys: "map fst (overlayLayers p2) = map fst (overlayLayers p1)"
    using first second by (simp add: update_keys)
  have host: "map fst (overlayLayers (snd (addOverlayLayer name l' v' (snd (addOverlayLayer name l v h)))))
           = map fst (overlayLayers (snd (addOverlayLayer name l v h)))"
    by (simp add: addOverlayLayer_registers update_keys)
  have host2: "map_of (overlayLayers (snd (addOverlayLayer name l' v' (snd (addOverlayLayer name l v h))))) name
           = Some l'"
    by (simp add: addOverlayLayer_registers update_conv')
  from first second keys host host2 show ?thesis
    by (simp add: update_conv' addOverlayLayer_control)
qed

theorem addToMap_again_rebinds_overlay_witness:
  "the_map (snd ex_hazards_start) \<noteq> None \<and> response_ok 200 \<and>
   map fst (overlayLayers (snd ex_hazards_twice)) = map fst (overlayLayers (snd ex_hazards_world)) \<and>
   map_of (overlayLayers (snd ex_hazards_world)) ''Weather Alerts'' = hz_layer (fst ex_hazards_world) \<and>
   map_of (overlayLayers (snd ex_hazards_twice)) ''Weather Alerts'' = hz_layer (fst ex_hazards_twice) \<and>
   hz_layer (fst ex_hazards_world) = Some 0 \<and> hz_layer (fst ex_hazards_twice) = Some 1 \<and>
   layerControl (snd ex_hazards_twice) =
     map_option (\<lambda>es. es @ [(1, ''Weather Alerts'')]) (layerControl (snd ex_hazards_world))"
proof -
  have m: "the_map (snd ex_hazards_start) \<noteq> None"
    by (simp add: ex_hazards_start_def ex_page_def)
  have ok: "response_ok 200" by (simp add: response_ok_def)
  have n: "nextLayer (snd ex_hazards_start) = 0"
    by (simp add: ex_hazards_start_def ex_page_def)
  have 1: "hz_addToMap ex_parse ex_now ex_options (Response 200 (Some ex_alerts))
             (fst ex_hazards_start, snd ex_hazards_start)
           = (fst ex_hazards_world, snd ex_hazards_world)"
    by (simp add: ex_hazards_world_def)
  have 2: "hz_addToMap ex_parse ex_now ex_options (Response 200 (Some ex_alerts))
             (fst ex_hazards_world, snd ex_hazards_world)
           = (fst ex_hazards_twice, snd ex_hazards_twice)"
    by (simp add: ex_hazards_twice_def)
  from addToMap_again_rebinds_overlay[OF m ok ok 1 2,
      where name = "''Weather Alerts''" and l = 0 and v = True and l' = 1 and v' = True
        and h = "snd ex_hazards_start"] m ok n
  show ?thesis by simp
qed

text \<open>
  C7, as the claim states it, fails: after the second \<open>addToMap\<close> the display name is
  bound to another layer than after the first, and the layer control lists two entries
  under that name.
\<close>

theorem addToMap_again_changes_registration:
  "overlayLayers (snd ex_hazards_world) = [(''Weather Alerts'', 0)] \<and>
   overlayLayers (snd ex_hazards_twice) = [(''Weather Alerts'', 1)] \<and>
   overlayLayers (snd ex_hazards_twice) \<noteq> overlayLayers (snd ex_hazards_world) \<and>
   layerControl (snd ex_hazards_world) = Some [(0, ''Weather Alerts'')] \<and>
   layerControl (snd ex_hazards_twice) = Some [(0, ''Weather Alerts''), (1, ''Weather Alerts'')]"
proof -
  have w: "overlayLayers (snd ex_hazards_world) = [(''Weather Alerts'', 0)]"
    "layerControl (snd ex_hazards_world) = Some [(0, ''Weather Alerts'')]"
    by (simp_all add: ex_hazards_defs hazards_defs)
  have t: "overlayLayers (snd ex_hazards_twice) = [(''Weather Alerts'', 1)]"
    "layerControl (snd ex_hazards_twice) = Some [(0, ''Weather Alerts''), (1, ''Weather Alerts'')]"
    by (simp_all add: ex_hazards_twice_def ex_hazards_defs hazards_defs clearInterval_def)
  from w t show ?thesis by simp
qed

section \<open>Properties of the flood zone module\<close>

text \<open>
  C9. Whatever the bounds and the layer, a query built with the zone filter
  \<open>['AE','X']\<close> goes to the NFHL service with a \<open>where\<close> parameter that is the string
  \<open>FLD_ZONE IN ('AE','X')\<close>.
\<close>

theorem queryFloodZones_where_parameter:
  assumes "zoneFilter options = Some [''AE'', ''X'']"
  shows "params_get (rq_params (queryFloodZones JSON_stringify b options)) ''where''
           = Some ''FLD_ZONE IN ('AE','X')'' \<and>
         rq_service (queryFloodZones JSON_stringify b options) = NFHL_SERVICE"
  using assms by (simp add: queryFloodZones_def params_get_def)

theorem queryFloodZones_where_parameter_witness:
  "zoneFilter ex_flood_options = Some [''AE'', ''X''] \<and>
   params_get (rq_params (queryFloodZones ex_stringify ex_bounds_far ex_flood_options)) ''where''
     = Some ''FLD_ZONE IN ('AE','X')'' \<and>
   rq_service (queryFloodZones ex_stringify ex_bounds_far ex_flood_options) = NFHL_SERVICE"
proof -
  have h: "zoneFilter ex_flood_options = Some [''AE'', ''X'']"
    by (simp add: ex_flood_options_def)
  from queryFloodZones_where_parameter[OF h, of ex_stringify ex_bounds_far] h
  show ?thesis by simp
qed

text \<open>
  C4, as the code has it. The code subtracts and compares doubles: the difference of two
  bounds is the exact difference rounded to the nearest double, and the threshold is the
  double that \<open>0.01\<close> denotes. With a map, a call of \<open>loadForCurrentView\<close> for which this
  computed difference is, on all four edges, in magnitude strictly less than that
  threshold issues no query and changes nothing; a call for which it is not so on some
  edge issues exactly one query, for the new viewport, and records it as the last
  queried bounds; and so does a call when no bounds are recorded yet.
\<close>

theorem loadForCurrentView_debounce:
  assumes "the_map p = Some m"
  shows "(\<forall>a. currentBounds z = Some a \<and>
              number_less (number_abs (number_sub (west a) (west (m_bounds m)))) literal_0_01 \<and>
              number_less (number_abs (number_sub (south a) (south (m_bounds m)))) literal_0_01 \<and>
              number_less (number_abs (number_sub (east a) (east (m_bounds m)))) literal_0_01 \<and>
              number_less (number_abs (number_sub (north a) (north (m_bounds m)))) literal_0_01
            \<longrightarrow> loadForCurrentView JSON_stringify options (z, p) = (z, p)) \<and>
         (\<forall>a. currentBounds z = Some a \<and>
              (\<not> number_less (number_abs (number_sub (west a) (west (m_bounds m)))) literal_0_01 \<or>
               \<not> number_less (number_abs (number_sub (south a) (south (m_bounds m)))) literal_0_01 \<or>
               \<not> number_less (number_abs (number_sub (east a) (east (m_bounds m)))) literal_0_01 \<or>
               \<not> number_less (number_abs (number_sub (north a) (north (m_bounds m)))) literal_0_01)
            \<longrightarrow> requests (snd (loadForCurrentView JSON_stringify options (z, p)))
                  = requests p @ [queryFloodZones JSON_stringify (m_bounds m) options] \<and>
                currentBounds (fst (loadForCurrentView JSON_stringify options (z, p)))
                  = Some (m_bounds m)) \<and>
         (currentBounds z = None
            \<longrightarrow> requests (snd (loadForCurrentView JSON_stringify options (z, p)))
                  = requests p @ [queryFloodZones JSON_stringify (m_bounds m) options] \<and>
                currentBounds (fst (loadForCurrentView JSON_stringify options (z, p)))
                  = Some (m_bounds m))"
proof (intro conjI allI impI)
  fix a
  assume "currentBounds z = Some a \<and>
              number_less (number_abs (number_sub (west a) (west (m_bounds m)))) literal_0_01 \<and>
              number_less (number_abs (number_sub (south a) (south (m_bounds m)))) literal_0_01 \<and>
              number_less (number_abs (number_sub (east a) (east (m_bounds m)))) literal_0_01 \<and>
              number_less (number_abs (number_sub (north a) (north (m_bounds m)))) literal_0_01"
  then show "loadForCurrentView JSON_stringify options (z, p) = (z, p)"
    using assms by (simp add: loadForCurrentView_def boundsEqual_def Let_def)
next
  fix a
  assume far: "currentBounds z = Some a \<and>
              (\<not> number_less (number_abs (number_sub (west a) (west (m_bounds m)))) literal_0_01 \<or>
               \<not> number_less (number_abs (number_sub (south a) (south (m_bounds m)))) literal_0_01 \<or>
               \<not> number_less (number_abs (number_sub (east a) (east (m_bounds m)))) literal_0_01 \<or>
               \<not> number_less (number_abs (number_sub (north a) (north (m_bounds m)))) literal_0_01)"
  then have ne: "\<not> boundsEqual a (m_bounds m)"
    unfolding boundsEqual_def Let_def by blast
  show "requests (snd (loadForCurrentView JSON_stringify options (z, p)))
          = requests p @ [queryFloodZones JSON_stringify (m_bounds m) options]"
    using assms far ne by (simp add: loadForCurrentView_def showLoading_def Let_def)
  show "currentBounds (fst (loadForCurrentView JSON_stringify options (z, p))) = Some (m_bounds m)"
    using assms far ne by (simp add: loadForCurrentView_def Let_def)
next
  assume none: "currentBounds z = None"
  show "requests (snd (loadForCurrentView JSON_stringify options (z, p)))
          = requests p @ [queryFloodZones JSON_stringify (m_bounds m) options]"
    using assms none by (simp add: loadForCurrentView_def showLoading_def Let_def)
  show "currentBounds (fst (loadForCurrentView JSON_stringify options (z, p))) = Some (m_bounds m)"
    using assms none by (simp add: loadForCurrentView_def Let_def)
qed

text \<open>
  The threshold is within half a unit in the last place (\<open>2 ^ - 60\<close>) of one hundredth,
  and above it.
\<close>

lemma literal_0_01_nearest:
  "\<bar>dyadic 5764607523034235 (- 59) - 1 / 100\<bar> < 1 / 2 ^ 60"
  "1 / 100 < dyadic 5764607523034235 (- 59)"
  by (simp_all add: dyadic_def)

text \<open>A viewport that has not moved is always within the threshold.\<close>

lemma boundsEqual_same_finite:
  assumes "west b = Finite mw ew" and "south b = Finite ms es"
    and "east b = Finite me ee" and "north b = Finite mn en"
  shows "boundsEqual b b"
  using assms by (simp add: boundsEqual_def round_double_def literal_0_01_def)

lemma ex_flood_loaded_eq:
  "ex_flood_loaded =
     (\<lparr>fz_layer = None, currentBounds = Some ex_bounds\<rparr>,
      ex_page\<lparr>loader := Some ''Loading flood zones...'',
              requests := [queryFloodZones ex_stringify ex_bounds ex_flood_options]\<rparr>)"
  by (simp add: ex_flood_loaded_def ex_flood_start_def loadForCurrentView_def ex_page_def
      showLoading_def Let_def)

text \<open>The computed differences between \<open>ex_bounds\<close> and the two panned viewports.\<close>

lemma ex_near_differences:
  "number_less (number_abs (number_sub (Finite (- 125) 0) (Finite (- 31999) (- 8)))) literal_0_01"
  "number_less (number_abs (number_sub (Finite 45 0) (Finite 11519 (- 8)))) literal_0_01"
  "number_less (number_abs (number_sub (Finite (- 116) 0) (Finite (- 116) 0))) literal_0_01"
  "number_less (number_abs (number_sub (Finite 49 0) (Finite 6273 (- 7)))) literal_0_01"
  by code_simp+

lemma ex_far_difference:
  "\<not> number_less (number_abs (number_sub (Finite (- 125) 0) (Finite (- 7999) (- 6)))) literal_0_01"
  by code_simp

theorem loadForCurrentView_debounce_witness:
  "currentBounds (fst ex_flood_start) = None \<and>
   requests (snd ex_flood_start) = [] \<and>
   length (requests (snd ex_flood_loaded)) = 1 \<and>
   currentBounds (fst ex_flood_loaded) = Some ex_bounds \<and>
   number_less (number_abs (number_sub (west ex_bounds) (west ex_bounds_near))) literal_0_01 \<and>
   number_less (number_abs (number_sub (south ex_bounds) (south ex_bounds_near))) literal_0_01 \<and>
   number_less (number_abs (number_sub (east ex_bounds) (east ex_bounds_near))) literal_0_01 \<and>
   number_less (number_abs (number_sub (north ex_bounds) (north ex_bounds_near))) literal_0_01 \<and>
   loadForCurrentView ex_stringify ex_flood_options (move_to ex_bounds_near ex_flood_loaded)
     = move_to ex_bounds_near ex_flood_loaded \<and>
   \<not> number_less (number_abs (number_sub (west ex_bounds) (west ex_bounds_far))) literal_0_01 \<and>
   requests (snd (loadForCurrentView ex_stringify ex_flood_options (move_to ex_bounds_far ex_flood_loaded)))
     = requests (snd ex_flood_loaded) @ [queryFloodZones ex_stringify ex_bounds_far ex_flood_options] \<and>
   length (requests (snd (loadForCurrentView ex_stringify ex_flood_options
                            (move_to ex_bounds_far ex_flood_loaded)))) = 2"
proof -
  have m0: "the_map (snd ex_flood_start) = Some \<lparr>m_bounds = ex_bounds, m_layers = []\<rparr>"
    by (simp add: ex_flood_start_def ex_page_def)
  have c0: "currentBounds (fst ex_flood_start) = None" "requests (snd ex_flood_start) = []"
    by (simp_all add: ex_flood_start_def ex_page_def)
  from loadForCurrentView_debounce[OF m0, of "fst ex_flood_start" ex_stringify ex_flood_options] c0
  have first: "requests (snd ex_flood_loaded) = [queryFloodZones ex_stringify ex_bounds ex_flood_options]"
    "currentBounds (fst ex_flood_loaded) = Some ex_bounds"
    by (simp_all add: ex_flood_loaded_def)
  have m1: "the_map (snd (move_to ex_bounds_near ex_flood_loaded))
              = Some \<lparr>m_bounds = ex_bounds_near, m_layers = []\<rparr>"
    by (simp add: move_to_def ex_flood_loaded_eq ex_page_def)
  have c1: "currentBounds (fst (move_to ex_bounds_near ex_flood_loaded)) = Some ex_bounds"
    by (simp add: move_to_def first)
  have near:
    "number_less (number_abs (number_sub (west ex_bounds) (west ex_bounds_near))) literal_0_01"
    "number_less (number_abs (number_sub (south ex_bounds) (south ex_bounds_near))) literal_0_01"
    "number_less (number_abs (number_sub (east ex_bounds) (east ex_bounds_near))) literal_0_01"
    "number_less (number_abs (number_sub (north ex_bounds) (north ex_bounds_near))) literal_0_01"
    using ex_near_differences by (simp_all add: ex_bounds_def ex_bounds_near_def)
  from loadForCurrentView_debounce[OF m1, of "fst (move_to ex_bounds_near ex_flood_loaded)"
      ex_stringify ex_flood_options] c1 near
  have second: "loadForCurrentView ex_stringify ex_flood_options (move_to ex_bounds_near ex_flood_loaded)
     = move_to ex_bounds_near ex_flood_loaded"
    by simp
  have m2: "the_map (snd (move_to ex_bounds_far ex_flood_loaded))
              = Some \<lparr>m_bounds = ex_bounds_far, m_layers = []\<rparr>"
    by (simp add: move_to_def ex_flood_loaded_eq ex_page_def)
  have c2: "currentBounds (fst (move_to ex_bounds_far ex_flood_loaded)) = Some ex_bounds"
    "requests (snd (move_to ex_bounds_far ex_flood_loaded)) = requests (snd ex_flood_loaded)"
    by (simp_all add: move_to_def first)
  have far: "\<not> number_less (number_abs (number_sub (west ex_bounds) (west ex_bounds_far))) literal_0_01"
    using ex_far_difference by (simp add: ex_bounds_def ex_bounds_far_def)
  from loadForCurrentView_debounce[OF m2, of "fst (move_to ex_bounds_far ex_flood_loaded)"
      ex_stringify ex_flood_options] c2 far
  have third: "requests (snd (loadForCurrentView ex_stringify ex_flood_options
                                (move_to ex_bounds_far ex_flood_loaded)))
     = requests (snd ex_flood_loaded) @ [queryFloodZones ex_stringify ex_bounds_far ex_flood_options]"
    by simp
  from c0 first second third near far show ?thesis by simp
qed

text \<open>
  C4, as the claim states it, fails. The module has queried a viewport whose west edge is
  the double \<open>0.01\<close>, and the map settles at a viewport whose west edge is the double
  \<open>3e-19\<close>, the other edges unchanged. The two west edges differ by less than 0.01 degrees,
  but the difference rounds to the double \<open>0.01\<close>, which is not less than the threshold:
  the call issues a query.
\<close>

theorem loadForCurrentView_rounding_issues_query:
  "currentBounds (fst ex_flood_rounding) = Some ex_bounds_hundredth \<and>
   map_option m_bounds (the_map (snd ex_flood_rounding)) = Some ex_bounds_tiny \<and>
   west ex_bounds_hundredth = Finite 5764607523034235 (- 59) \<and>
   west ex_bounds_tiny = Finite 6230756230241793 (- 114) \<and>
   round_double 5764607523034235 (- 59) = Finite 5764607523034235 (- 59) \<and>
   round_double 6230756230241793 (- 114) = Finite 6230756230241793 (- 114) \<and>
   \<bar>dyadic 5764607523034235 (- 59) - dyadic 6230756230241793 (- 114)\<bar> < 1 / 100 \<and>
   south ex_bounds_hundredth = south ex_bounds_tiny \<and>
   east ex_bounds_hundredth = east ex_bounds_tiny \<and>
   north ex_bounds_hundredth = north ex_bounds_tiny \<and>
   length (requests (snd ex_flood_rounding)) = 1 \<and>
   requests (snd (loadForCurrentView ex_stringify ex_flood_options ex_flood_rounding))
     = requests (snd ex_flood_rounding) @ [queryFloodZones ex_stringify ex_bounds_tiny ex_flood_options]"
proof -
  have state: "ex_flood_rounding =
     (\<lparr>fz_layer = None, currentBounds = Some ex_bounds_hundredth\<rparr>,
      ex_page\<lparr>the_map := Some \<lparr>m_bounds = ex_bounds_tiny, m_layers = []\<rparr>,
              loader := Some ''Loading flood zones...'',
              requests := [queryFloodZones ex_stringify ex_bounds_hundredth ex_flood_options]\<rparr>)"
    by (simp add: ex_flood_rounding_def ex_flood_start_def move_to_def loadForCurrentView_def
        ex_page_def showLoading_def Let_def)
  have doubles: "round_double 5764607523034235 (- 59) = Finite 5764607523034235 (- 59)"
    "round_double 6230756230241793 (- 114) = Finite 6230756230241793 (- 114)"
    by code_simp+
  have west: "\<not> number_less (number_abs (number_sub (Finite 5764607523034235 (- 59))
                  (Finite 6230756230241793 (- 114)))) literal_0_01"
    by code_simp
  have exact: "\<bar>dyadic 5764607523034235 (- 59) - dyadic 6230756230241793 (- 114)\<bar> < 1 / 100"
    by (simp add: dyadic_def)
  have ne: "\<not> boundsEqual ex_bounds_hundredth ex_bounds_tiny"
    using west by (simp add: boundsEqual_def Let_def ex_bounds_hundredth_def ex_bounds_tiny_def)
  have issued: "requests (snd (loadForCurrentView ex_stringify ex_flood_options ex_flood_rounding))
     = requests (snd ex_flood_rounding) @ [queryFloodZones ex_stringify ex_bounds_tiny ex_flood_options]"
    unfolding state using ne by (simp add: loadForCurrentView_def showLoading_def Let_def ex_page_def)
  from doubles exact issued show ?thesis
    by (simp add: state ex_bounds_hundredth_def ex_bounds_tiny_def ex_page_def)
qed

section \<open>Properties of the tribal boundaries layer\<close>

lemma filter_upt_only: "i < n \<Longrightarrow> filter (\<lambda>k. k = i) [0 ..< n] = [i]"
proof (induction n)
  case 0
  then show ?case by simp
next
  case (Suc n)
  show ?case
  proof (cases "i = n")
    case True
    have "filter (\<lambda>k. k = n) [0 ..< n] = []"
      by (simp add: filter_empty_conv)
    with True show ?thesis by simp
  next
    case False
    with Suc show ?thesis by simp
  qed
qed

lemma selected_positions_only:
  assumes "tb_layer t = Some ls" and "i < length ls"
    and "\<And>k. k < length ls \<Longrightarrow> (snd (ls ! k) = Selected) = (k = i)"
  shows "selected_positions t = [i]"
proof -
  have "filter (\<lambda>k. snd (ls ! k) = Selected) [0 ..< length ls] = filter (\<lambda>k. k = i) [0 ..< length ls]"
    by (rule filter_cong) (simp_all add: assms(3))
  then show ?thesis
    using assms(1,2) by (simp add: selected_positions_def filter_upt_only)
qed

text \<open>
  The click handler keeps the single selection: from a state in which only the selected
  feature may show the selected style, a click on territory \<open>i\<close> leaves \<open>i\<close> as the one
  territory in the selected style.
\<close>

lemma click_single_selection:
  assumes l: "tb_layer t = Some ls" and i: "i < length ls" and c: "selection_consistent t"
  shows "selected_positions (click i t) = [i] \<and> selectedFeature (click i t) = Some i \<and>
         selection_consistent (click i t)"
proof -
  from c l have cons: "\<And>k. k < length ls \<Longrightarrow> snd (ls ! k) = Selected \<Longrightarrow> selectedFeature t = Some k"
    by (simp add: selection_consistent_def list_all_iff)
  define ls1 where "ls1 = (case selectedFeature t of
                             None \<Rightarrow> ls
                           | Some j \<Rightarrow> if j \<noteq> i then map (\<lambda>(f, _). (f, Default)) ls else ls)"
  have len1: "length ls1 = length ls"
    by (simp add: ls1_def split: option.splits)
  have others: "snd (ls1 ! k) \<noteq> Selected" if "k < length ls" "k \<noteq> i" for k
  proof (cases "selectedFeature t")
    case None
    with cons[OF that(1)] show ?thesis by (auto simp: ls1_def)
  next
    case (Some j)
    show ?thesis
    proof (cases "j = i")
      case True
      with Some cons[OF that(1)] that(2) show ?thesis by (auto simp: ls1_def)
    next
      case False
      with Some that(1) show ?thesis by (simp add: ls1_def case_prod_beta)
    qed
  qed
  have res: "click i t = t\<lparr>tb_layer := Some (ls1[i := (fst (ls1 ! i), Selected)]), selectedFeature := Some i\<rparr>"
    using l i len1
    by (cases "selectedFeature t")
      (auto simp: click_def setStyle_def resetStyle_def ls1_def Let_def)
  have iff: "(snd ((ls1[i := (fst (ls1 ! i), Selected)]) ! k) = Selected) = (k = i)"
    if "k < length (ls1[i := (fst (ls1 ! i), Selected)])" for k
    using that others[of k] i len1 by (cases "k = i") simp_all
  have pos: "selected_positions (click i t) = [i]"
    by (rule selected_positions_only[of _ "ls1[i := (fst (ls1 ! i), Selected)]"])
      (simp_all add: res i len1 iff)
  have "selection_consistent (click i t)"
    using iff by (simp add: res selection_consistent_def list_all_iff)
  with pos res show ?thesis by simp
qed

text \<open>Hovering leaves the style of the feature held in \<open>_selectedFeature\<close> alone.\<close>

lemma hover_keeps_selected:
  assumes "tb_layer t = Some ls" and "selectedFeature t = Some i" and "i < length ls"
  shows "map_option (\<lambda>ls'. ls' ! i) (tb_layer (mouseover j t)) = Some (ls ! i) \<and>
         map_option (\<lambda>ls'. ls' ! i) (tb_layer (mouseout j t)) = Some (ls ! i)"
  using assms by (auto simp: mouseover_def mouseout_def setStyle_def)

text \<open>
  C8 on the code. \<open>focusTribe\<close> selects without resetting the previous selection, as the
  click handler does before it selects: after a click on the first territory,
  \<open>focusTribe('nez-perce')\<close> leaves both territories in the selected style; two clicks
  leave one. Hovering over the first territory then changes its selected style.
\<close>

theorem focusTribe_leaves_two_selected:
  "focusTribe ''nez-perce'' (ex_page :: unit page) (click 0 ex_tribal) = Inr (ex_tribal_both, True) \<and>
   selected_positions ex_tribal_both = [0, 1] \<and>
   selectedFeature ex_tribal_both = Some 1 \<and>
   selected_positions (click 1 (click 0 ex_tribal)) = [1] \<and>
   selected_positions (mouseover 0 ex_tribal_both) = [1]"
proof -
  have c0: "click 0 ex_tribal =
      \<lparr>tb_layer = Some [(\<lparr>tp_code = Some ''yakama'', tp_NAME = Some ''Yakama Nation''\<rparr>, Selected),
                        (\<lparr>tp_code = None, tp_NAME = Some ''Nez Perce''\<rparr>, Default)],
       tb_data = Some ex_territories, selectedFeature = Some 0\<rparr>"
    by (simp add: ex_tribal_def tb_createLayer_def click_def setStyle_def ex_territories_def)
  have code1: "feature_code \<lparr>tp_code = None, tp_NAME = Some ''Nez Perce''\<rparr> = Some ''nez-perce''"
    by code_simp
  have code0: "feature_code \<lparr>tp_code = Some ''yakama'', tp_NAME = Some ''Yakama Nation''\<rparr> = Some ''yakama''"
    by (simp add: feature_code_def)
  have lower: "toLowerCase ''nez-perce'' = ''nez-perce''"
    by (simp add: toLowerCase_def)
  have focus: "focusTribe ''nez-perce'' (ex_page :: unit page) (click 0 ex_tribal) = Inr (ex_tribal_both, True)"
    unfolding c0 by (simp add: focusTribe_def lower code0 code1 ex_page_def ex_tribal_both_def)
  have both: "selected_positions ex_tribal_both = [0, 1]"
    by (simp add: selected_positions_def ex_tribal_both_def upt_rec)
  have clicks: "selected_positions (click 1 (click 0 ex_tribal)) = [1]"
    unfolding c0
    by (simp add: click_def resetStyle_def setStyle_def selected_positions_def upt_rec)
  have hover: "selected_positions (mouseover 0 ex_tribal_both) = [1]"
    by (simp add: mouseover_def setStyle_def selected_positions_def ex_tribal_both_def upt_rec)
  from focus both clicks hover show ?thesis by (simp add: ex_tribal_both_def)
qed

end
